theory Spec2Isabelle
  imports Main "HOL-Library.AList"
begin

section \<open>Namespace sanitization (FirebaseServiceRegistry.sanitizeUserId)\<close>

text \<open>
  Strings are lists of 8-bit characters, so the development covers identifiers whose
  code units lie below 256 (ASCII and Latin-1). On that range the platform's
  \<^verbatim>\<open>toLowerCase\<close> maps one character to one character: \<open>A\<close>..\<open>Z\<close> and
  the Latin-1 capitals (192..222 except the multiplication sign 215) move up by 32,
  everything else stays.
\<close>

definition toLowerCase_char :: "char \<Rightarrow> char" where
  "toLowerCase_char c =
     (let n = (of_char c :: nat)
      in if (65 \<le> n \<and> n \<le> 90) \<or> (192 \<le> n \<and> n \<le> 222 \<and> n \<noteq> 215)
         then char_of (n + 32) else c)"

definition toLowerCase :: "string \<Rightarrow> string" where
  "toLowerCase s = map toLowerCase_char s"

text \<open>The character class \<^verbatim>\<open>[a-z0-9-_]\<close> of the first regular expression.\<close>

definition allowed :: "char \<Rightarrow> bool" where
  "allowed c =
     (let n = (of_char c :: nat)
      in (97 \<le> n \<and> n \<le> 122) \<or> (48 \<le> n \<and> n \<le> 57) \<or> c = CHR ''-'' \<or> c = CHR ''_'')"

text \<open>\<^verbatim>\<open>.replace(/[^a-z0-9-_]/g, '-')\<close>\<close>

definition replace_invalid :: "string \<Rightarrow> string" where
  "replace_invalid s = map (\<lambda>c. if allowed c then c else CHR ''-'') s"

text \<open>\<^verbatim>\<open>.replace(/-+/g, '-')\<close>: every maximal run of dashes becomes one dash.\<close>

fun collapse_dashes :: "string \<Rightarrow> string" where
  "collapse_dashes [] = []"
| "collapse_dashes [c] = [c]"
| "collapse_dashes (c # d # s) =
     (if c = CHR ''-'' \<and> d = CHR ''-'' then collapse_dashes (d # s)
      else c # collapse_dashes (d # s))"

text \<open>
  \<^verbatim>\<open>.replace(/^-|-$/g, '')\<close>: the first alternative matches one dash at index 0,
  the second one dash at the last index; each match is deleted, so at most one
  character goes at either end.
\<close>

definition remove_leading_dash :: "string \<Rightarrow> string" where
  "remove_leading_dash s = (case s of [] \<Rightarrow> [] | c # r \<Rightarrow> if c = CHR ''-'' then r else s)"

definition remove_trailing_dash :: "string \<Rightarrow> string" where
  "remove_trailing_dash s = (if s \<noteq> [] \<and> last s = CHR ''-'' then butlast s else s)"

definition remove_edge_dashes :: "string \<Rightarrow> string" where
  "remove_edge_dashes s = remove_trailing_dash (remove_leading_dash s)"

definition fallback_user :: string where
  "fallback_user = ''unknown-user''"

text \<open>
  \<^verbatim>\<open>userId.toLowerCase().replace(..).replace(..).replace(..).substring(0, 50) || 'unknown-user'\<close>
\<close>

definition sanitizeUserId :: "string \<Rightarrow> string" where
  "sanitizeUserId userId =
     (let r = take 50 (remove_edge_dashes (collapse_dashes (replace_invalid (toLowerCase userId))))
      in if r = [] then fallback_user else r)"

subsection \<open>The sanitization steps as the specification words them\<close>

text \<open>
  The specification's wording, step by step: lowercase; replace any character outside
  the allowed set with a dash; collapse repeated dashes (no dash is kept directly after
  a dash); trim leading and trailing dashes (all of them); truncate to 50 characters;
  substitute the fallback constant for an empty result.
\<close>

fun spec_collapse :: "bool \<Rightarrow> string \<Rightarrow> string" where
  "spec_collapse after_dash [] = []"
| "spec_collapse after_dash (c # s) =
     (if c = CHR ''-'' then (if after_dash then spec_collapse True s else c # spec_collapse True s)
      else c # spec_collapse False s)"

definition spec_trim :: "string \<Rightarrow> string" where
  "spec_trim s =
     rev (dropWhile (\<lambda>c. c = CHR ''-'') (rev (dropWhile (\<lambda>c. c = CHR ''-'') s)))"

definition spec_sanitize :: "string \<Rightarrow> string" where
  "spec_sanitize s =
     (let r = take 50 (spec_trim (spec_collapse False
                (map (\<lambda>c. if allowed c then c else CHR ''-'') (map toLowerCase_char s))))
      in if r = [] then ''unknown-user'' else r)"

text \<open>A string is collapsed when no dash directly follows a dash.\<close>

fun no_double_dash :: "string \<Rightarrow> bool" where
  "no_double_dash [] = True"
| "no_double_dash [c] = True"
| "no_double_dash (c # d # s) = (\<not> (c = CHR ''-'' \<and> d = CHR ''-'') \<and> no_double_dash (d # s))"


section \<open>Data model (types/index.ts)\<close>

datatype status = Running | Stopped | Errored | Unknown

text \<open>
  Metadata values, scalars only. \<open>jvalue\<close> is what a JSON document can hold;
  \<open>JIsoDate d\<close> is the string \<^verbatim>\<open>toISOString\<close> prints for the instant \<open>d\<close>. \<open>mvalue\<close>
  is what a caller can put into \<^verbatim>\<open>options.metadata\<close>: a JSON value,
  \<^verbatim>\<open>undefined\<close>, a function, a \<^verbatim>\<open>Date\<close>, or a number that is not finite
  (\<^verbatim>\<open>NaN\<close>, \<^verbatim>\<open>Infinity\<close>). \<open>to_json\<close> is what \<^verbatim>\<open>JSON.stringify\<close> followed by
  \<^verbatim>\<open>JSON.parse\<close> makes of a value: properties that are undefined or functions are
  left out, a date comes back as its ISO string, a number that is not finite as
  \<^verbatim>\<open>null\<close>.
\<close>

datatype jvalue = JString string | JNumber int | JBool bool | JNull | JIsoDate int

datatype mvalue = MJson jvalue | MUndefined | MFunction | MDate int | MNonFinite

fun to_json :: "mvalue \<Rightarrow> jvalue option" where
  "to_json (MJson j) = Some j"
| "to_json MUndefined = None"
| "to_json MFunction = None"
| "to_json (MDate d) = Some (JIsoDate d)"
| "to_json MNonFinite = Some JNull"

definition to_json_meta :: "(string \<times> mvalue) list \<Rightarrow> (string \<times> jvalue) list" where
  "to_json_meta m = List.map_filter (\<lambda>(k, v). map_option (Pair k) (to_json v)) m"

text \<open>
  \<^verbatim>\<open>ServiceInfo\<close>, as a store holds it (a JSON document). Optional fields are
  options. The ISO timestamps (\<^verbatim>\<open>startedAt\<close>, \<^verbatim>\<open>lastHealthCheck\<close>,
  \<^verbatim>\<open>lastUpdated\<close>) are kept as the millisecond counts they print, and \<^verbatim>\<open>metadata\<close>
  as a key/value list in the order written (the registry never enumerates it).
\<close>

record ServiceInfo =
  name :: string
  port :: int
  pid :: "int option"
  status :: status
  startedAt :: int
  healthUrl :: "string option"
  healthCheckUrl :: "string option"
  metadata :: "(string \<times> jvalue) list"
  lastHealthCheck :: "int option"
  isHealthy :: "bool option"

text \<open>\<^verbatim>\<open>ServiceRegistry\<close>: the snapshot document, \<open>services\<close> keyed by name.\<close>

record ServiceRegistry =
  services :: "(string \<times> ServiceInfo) list"
  lastUpdated :: int

record RegisterOptions =
  opt_port :: int
  opt_pid :: "int option"
  opt_healthUrl :: "string option"
  opt_metadata :: "(string \<times> mvalue) list option"

record DiscoverOptions =
  opt_timeout :: "int option"
  opt_retries :: "int option"
  opt_includeHealth :: "bool option"


record config =
  registryApiUrl :: string
  healthCheckTimeout :: int
  retryAttempts :: int
  retryDelay :: int
  serviceTimeout :: int

text \<open>
  The error classes of \<^verbatim>\<open>types/index.ts\<close>, each with what its constructor is given;
  \<open>Failure\<close> is a plain \<^verbatim>\<open>Error\<close> of the platform (file system, JSON, SDK) with
  its message.
\<close>

datatype error =
    ServiceNotFoundError string
  | RegistryUnavailableError string
  | HealthCheckError string
  | Failure string

definition quoted :: "string \<Rightarrow> string" where
  "quoted s = [CHR 0x27] @ s @ [CHR 0x27]"

fun message_of :: "error \<Rightarrow> string" where
  "message_of (ServiceNotFoundError n) = ''Service '' @ quoted n @ '' not found in registry''"
| "message_of (RegistryUnavailableError m) = m"
| "message_of (HealthCheckError n) = ''Health check failed for service '' @ quoted n"
| "message_of (Failure m) = m"

fun code_of :: "error \<Rightarrow> string" where
  "code_of (ServiceNotFoundError n) = ''SERVICE_NOT_FOUND''"
| "code_of (RegistryUnavailableError m) = ''REGISTRY_UNAVAILABLE''"
| "code_of (HealthCheckError n) = ''HEALTH_CHECK_FAILED''"
| "code_of (Failure m) = []"

section \<open>The environment the adapters run in\<close>

text \<open>
  The body of a response: not JSON (\<^verbatim>\<open>response.json()\<close> throws), JSON without a
  usable \<^verbatim>\<open>services\<close> member (reading \<^verbatim>\<open>registry.services[name]\<close> throws), or a
  snapshot. What \<^verbatim>\<open>fetch(url)\<close> meets: a response (its \<^verbatim>\<open>ok\<close> flag and its body),
  a network failure, or a cross-origin failure.
\<close>

datatype body = NotJson | Misshapen | Body ServiceRegistry

datatype response =
    Response bool body
  | NetworkError
  | CorsError

text \<open>What the browser adapter's cache holds: whatever \<^verbatim>\<open>response.json()\<close> returned.\<close>

datatype cached = Shaped ServiceRegistry | Unshaped

text \<open>The registry file: missing (\<^verbatim>\<open>ENOENT\<close>), unusable (not JSON, or JSON of the
  wrong shape, which fails at the first access to \<^verbatim>\<open>registry.services\<close> inside the
  same handler), or a snapshot.\<close>

datatype file_state = NoFile | Garbled | Snapshot ServiceRegistry

record Presence =
  online :: bool
  lastSeen :: int
  presence_pid :: int
  presence_userId :: string
  presence_hostname :: string

text \<open>
  Everything outside the functions under study, as one explicit state:
  \<^item> \<open>clock\<close>: \<^verbatim>\<open>Date.now()\<close>; \<open>self_pid\<close>: \<^verbatim>\<open>process.pid\<close>;
  \<^item> \<open>kill_ok\<close>: the pids for which \<^verbatim>\<open>process.kill(pid, 0)\<close> returns without throwing;
  \<^item> \<open>http\<close>: what each URL answers; \<open>net_log\<close>: every URL fetched so far, in order;
  \<^item> \<open>reg_file\<close>, \<open>dir_exists\<close>: the registry file and its directory;
  \<^item> \<open>io\<close>: the outcomes of the coming store accesses (file reads and writes, registry
    fetches, real-time database round trips), one per access, \<open>False\<close> for a transient
    failure; when the list is used up every access goes through;
  \<^item> \<open>cache\<close>: the browser adapter's cache, keyed by endpoint;
  \<^item> \<open>firebase_up\<close>: whether each coming initialization of the real-time database
    succeeds (used up: it fails); \<open>init_attempts\<close> counts the initializations tried;
  \<^item> \<open>isInitialized\<close>, \<open>currentServiceName\<close>: fields of the event-store adapter;
    \<open>fallback_mock\<close>: its constructor could not load the file-backed module and built
    the stand-in whose operations do nothing;
    \<open>namespace\<close>: the user id its two database references were built with;
  \<^item> \<open>rt_services\<close>, \<open>rt_presence\<close>: what the database holds under those two references;
    \<open>armed\<close>: the names whose presence entry the database removes on disconnect;
  \<^item> the identity sources of the namespace resolver and the host facts put into metadata.
\<close>

record world =
  clock :: int
  self_pid :: int
  kill_ok :: "int list"
  http :: "(string \<times> response) list"
  net_log :: "string list"
  reg_file :: file_state
  dir_exists :: bool
  io :: "bool list"
  cache :: "(string \<times> cached \<times> int) list"
  firebase_up :: "bool list"
  init_attempts :: nat
  isInitialized :: bool
  fallback_mock :: bool
  namespace :: string
  currentServiceName :: "string option"
  rt_services :: "(string \<times> ServiceInfo) list"
  rt_presence :: "(string \<times> Presence) list"
  armed :: "string list"
  env_user_id :: "string option"
  git_email :: "string option"
  os_username :: "string option"
  user_id_file :: "string option"
  random_token :: string
  hostname :: string
  node_version :: string
  platform :: string

type_synonym 'a result = "(error + 'a) \<times> world"

text \<open>JavaScript truthiness of an optional number and of an optional string.\<close>

definition truthy_num :: "int option \<Rightarrow> bool" where
  "truthy_num x = (case x of None \<Rightarrow> False | Some n \<Rightarrow> n \<noteq> 0)"

definition truthy_str :: "string option \<Rightarrow> bool" where
  "truthy_str x = (case x of None \<Rightarrow> False | Some s \<Rightarrow> s \<noteq> [])"

text \<open>Decimal printing of an integer, for template strings.\<close>

fun digits :: "nat \<Rightarrow> string" where
  "digits n = (if n < 10 then [char_of (48 + n)] else digits (n div 10) @ [char_of (48 + n mod 10)])"

definition show_int :: "int \<Rightarrow> string" where
  "show_int i = (if i < 0 then CHR ''-'' # digits (nat (- i)) else digits (nat i))"

text \<open>The next scripted outcome of a store access.\<close>

definition io_ok :: "world \<Rightarrow> bool \<times> world" where
  "io_ok w = (case io w of [] \<Rightarrow> (True, w) | b # bs \<Rightarrow> (b, w\<lparr>io := bs\<rparr>))"

text \<open>\<^verbatim>\<open>delay(ms)\<close>: time passes.\<close>

definition delay :: "int \<Rightarrow> world \<Rightarrow> world" where
  "delay ms w = w\<lparr>clock := clock w + ms\<rparr>"

text \<open>
  \<^verbatim>\<open>performHealthCheck(url, {timeout})\<close> of the file-backed and the event-store
  adapter: \<^verbatim>\<open>response.ok\<close>, and \<open>false\<close> for anything thrown. It never throws.
\<close>

definition performHealthCheck :: "string \<Rightarrow> int \<Rightarrow> world \<Rightarrow> bool \<times> world" where
  "performHealthCheck url timeout w =
     ((case map_of (http w) url of Some (Response ok body) \<Rightarrow> ok | _ \<Rightarrow> False),
      w\<lparr>net_log := net_log w @ [url]\<rparr>)"

text \<open>\<^verbatim>\<open>process.kill(pid, 0)\<close> throws.\<close>

definition kill0_throws :: "int \<Rightarrow> world \<Rightarrow> bool" where
  "kill0_throws p w = (p \<notin> set (kill_ok w))"

section \<open>Plain objects used as dictionaries\<close>

text \<open>
  \<^verbatim>\<open>registry.services\<close> is a plain object, in the model the list of its own
  properties in insertion order. Reading \<^verbatim>\<open>services[name]\<close> goes through the
  prototype chain: a name that is no own property but a member of
  \<^verbatim>\<open>Object.prototype\<close> yields that member, which is truthy and has none of the
  fields of a record.
\<close>

definition inherited_names :: "string list" where
  "inherited_names =
     [''constructor'', ''__proto__'', ''hasOwnProperty'', ''isPrototypeOf'',
      ''propertyIsEnumerable'', ''toLocaleString'', ''toString'', ''valueOf'',
      ''__defineGetter__'', ''__defineSetter__'', ''__lookupGetter__'', ''__lookupSetter__'']"

datatype 'a property = Own 'a | Inherited | Missing

definition get_prop :: "(string \<times> 'a) list \<Rightarrow> string \<Rightarrow> 'a property" where
  "get_prop obj n =
     (case map_of obj n of
        Some v \<Rightarrow> Own v
      | None \<Rightarrow> if n \<in> set inherited_names then Inherited else Missing)"

text \<open>
  The assignment \<^verbatim>\<open>services[name] = value\<close> creates or overwrites an own property,
  except for the name \<^verbatim>\<open>__proto__\<close>: unless the object already has an own property of
  that name (a parsed document can), the assignment replaces the prototype and no own
  property appears, so nothing of it is serialized.
\<close>

definition set_prop :: "string \<Rightarrow> 'a \<Rightarrow> (string \<times> 'a) list \<Rightarrow> (string \<times> 'a) list" where
  "set_prop n v obj =
     (if n = ''__proto__'' \<and> map_of obj n = None then obj else AList.update n v obj)"

text \<open>
  \<^verbatim>\<open>Object.entries\<close> and \<^verbatim>\<open>Object.values\<close> list the own properties with the array
  indices first (canonical decimal strings below \<open>2^32 - 1\<close>, in ascending numeric
  order), then the other names in insertion order.
\<close>

definition decimal_value :: "string \<Rightarrow> nat" where
  "decimal_value s = foldl (\<lambda>a c. 10 * a + (of_char c - 48)) 0 s"

definition array_index :: "string \<Rightarrow> nat option" where
  "array_index s =
     (if s \<noteq> [] \<and> list_all (\<lambda>c. 48 \<le> (of_char c :: nat) \<and> (of_char c :: nat) \<le> 57) s
         \<and> (s = ''0'' \<or> hd s \<noteq> CHR ''0'') \<and> decimal_value s < 4294967295
      then Some (decimal_value s) else None)"

definition own_entries :: "(string \<times> 'a) list \<Rightarrow> (string \<times> 'a) list" where
  "own_entries obj =
     sort_key (\<lambda>(k, v). the (array_index k)) (filter (\<lambda>(k, v). array_index k \<noteq> None) obj)
     @ filter (\<lambda>(k, v). array_index k = None) obj"

text \<open>What \<^verbatim>\<open>discover\<close> hands back for a name it finds: a record, or the member of
  \<^verbatim>\<open>Object.prototype\<close> of that name.\<close>

datatype found = Record ServiceInfo | Member string

section \<open>The file-backed adapter (node/node-registry.ts)\<close>

definition ensureRegistryDir :: "world \<Rightarrow> unit result" where
  "ensureRegistryDir w =
     (if dir_exists w then (Inr (), w)
      else (let (ok, w1) = io_ok w
            in if ok then (Inr (), w1\<lparr>dir_exists := True\<rparr>)
               else (Inl (Failure ''EACCES: mkdir''), w1)))"

definition loadRegistry :: "world \<Rightarrow> ServiceRegistry result" where
  "loadRegistry w =
     (let (ok, w1) = io_ok w
      in if \<not> ok then (Inl (Failure ''EACCES: read''), w1)
         else (case reg_file w1 of
                 NoFile \<Rightarrow> (Inr \<lparr>services = [], lastUpdated = clock w1\<rparr>, w1)
               | Garbled \<Rightarrow> (Inl (Failure ''Unexpected token in JSON''), w1)
               | Snapshot registry \<Rightarrow> (Inr registry, w1)))"

text \<open>\<^verbatim>\<open>saveRegistry\<close> writes the JSON text of the snapshot; the records of the model
  are already in their JSON form (see \<open>register\<close>).\<close>

definition saveRegistry :: "ServiceRegistry \<Rightarrow> world \<Rightarrow> unit result" where
  "saveRegistry registry w =
     (let (ok, w1) = io_ok w
      in if ok then (Inr (), w1\<lparr>reg_file := Snapshot registry\<rparr>)
         else (Inl (Failure ''EACCES: write''), w1))"

text \<open>\<^verbatim>\<open>options.healthUrl ? `http://localhost:${options.port}${options.healthUrl}` : undefined\<close>\<close>

definition healthCheckUrl_of :: "int \<Rightarrow> string option \<Rightarrow> string option" where
  "healthCheckUrl_of p h =
     (case h of
        None \<Rightarrow> None
      | Some u \<Rightarrow> if u = [] then None else Some (''http://localhost:'' @ show_int p @ u))"

text \<open>\<^verbatim>\<open>options.pid || process.pid\<close>\<close>

definition pid_or_own :: "int option \<Rightarrow> world \<Rightarrow> int" where
  "pid_or_own p w = (case p of None \<Rightarrow> self_pid w | Some n \<Rightarrow> if n = 0 then self_pid w else n)"

text \<open>
  \<^verbatim>\<open>register\<close>. The record is built with the metadata as \<^verbatim>\<open>JSON.stringify\<close> will
  write it in \<^verbatim>\<open>saveRegistry\<close> a few lines later; nothing reads the record in
  between.
\<close>

definition register :: "string \<Rightarrow> RegisterOptions \<Rightarrow> world \<Rightarrow> unit result" where
  "register n options w =
     (let wrap = (\<lambda>e. RegistryUnavailableError
                    (''Failed to register service '' @ quoted n @ '': '' @ message_of e))
      in case ensureRegistryDir w of
           (Inl e, w1) \<Rightarrow> (Inl (wrap e), w1)
         | (Inr u, w1) \<Rightarrow>
             (case loadRegistry w1 of
                (Inl e, w2) \<Rightarrow> (Inl (wrap e), w2)
              | (Inr registry, w2) \<Rightarrow>
                  (let now = clock w2;
                       serviceInfo = \<lparr>name = n,
                         port = opt_port options,
                         pid = Some (pid_or_own (opt_pid options) w2),
                         status = Running,
                         startedAt = now,
                         healthUrl = opt_healthUrl options,
                         healthCheckUrl = healthCheckUrl_of (opt_port options) (opt_healthUrl options),
                         metadata =
                           to_json_meta (case opt_metadata options of None \<Rightarrow> [] | Some m \<Rightarrow> m),
                         lastHealthCheck = Some now,
                         isHealthy = Some True\<rparr>;
                       registry' = registry\<lparr>services := set_prop n serviceInfo (services registry),
                                            lastUpdated := now\<rparr>
                   in case saveRegistry registry' w2 of
                        (Inl e, w3) \<Rightarrow> (Inl (wrap e), w3)
                      | (Inr u', w3) \<Rightarrow> (Inr (), w3))))"

text \<open>
  The body of one attempt of \<^verbatim>\<open>discover\<close> after the snapshot has loaded. The optional
  probe sits in its own \<^verbatim>\<open>try\<close>: a failed save ends in the inner \<^verbatim>\<open>catch\<close>, which
  marks the returned record unhealthy. Nothing here reaches the outer \<^verbatim>\<open>catch\<close>.
\<close>

definition discover_loaded ::
  "string \<Rightarrow> int \<Rightarrow> bool \<Rightarrow> ServiceRegistry \<Rightarrow> world \<Rightarrow> found option \<times> world" where
  "discover_loaded n timeout includeHealth registry w =
     (case get_prop (services registry) n of
        Missing \<Rightarrow> (None, w)
      | Inherited \<Rightarrow> (Some (Member n), w)
      | Own service \<Rightarrow>
          (case (if includeHealth then healthCheckUrl service else None) of
             None \<Rightarrow> (Some (Record service), w)
           | Some url \<Rightarrow>
               if url = [] then (Some (Record service), w)
               else (let (h, w1) = performHealthCheck url timeout w;
                         service' = service\<lparr>isHealthy := Some h, lastHealthCheck := Some (clock w1)\<rparr>;
                         registry' = registry\<lparr>services := AList.update n service' (services registry)\<rparr>
                     in case saveRegistry registry' w1 of
                          (Inr u, w2) \<Rightarrow> (Some (Record service'), w2)
                        | (Inl e, w2) \<Rightarrow>
                            (Some (Record (service'\<lparr>isHealthy := Some False,
                                                    lastHealthCheck := Some (clock w2)\<rparr>)), w2))))"

text \<open>
  \<^verbatim>\<open>for (let attempt = 0; attempt <= retries; attempt++)\<close> of \<^verbatim>\<open>discover\<close>, from
  a given attempt on, with the last error seen so far.
\<close>

function discover_from ::
  "config \<Rightarrow> string \<Rightarrow> int \<Rightarrow> int \<Rightarrow> bool \<Rightarrow> int \<Rightarrow> error option \<Rightarrow> world
     \<Rightarrow> found option result" where
  "discover_from cfg n timeout retries includeHealth attempt lastError w =
     (if attempt \<le> retries then
        (case loadRegistry w of
           (Inr registry, w1) \<Rightarrow>
             (case discover_loaded n timeout includeHealth registry w1 of
                (r, w2) \<Rightarrow> (Inr r, w2))
         | (Inl e, w1) \<Rightarrow>
             discover_from cfg n timeout retries includeHealth (attempt + 1) (Some e)
               (if attempt < retries then delay (retryDelay cfg) w1 else w1))
      else (case lastError of
              Some e \<Rightarrow>
                (Inl (RegistryUnavailableError
                   (''Failed to discover service '' @ quoted n @ '' after '' @ show_int (retries + 1)
                      @ '' attempts: '' @ message_of e)), w)
            | None \<Rightarrow> (Inr None, w)))"
  by pat_completeness auto
termination
  by (relation "measure (\<lambda>(cfg, n, timeout, retries, includeHealth, attempt, lastError, w).
        nat (retries + 1 - attempt))") auto

definition discover :: "config \<Rightarrow> string \<Rightarrow> DiscoverOptions \<Rightarrow> world \<Rightarrow> found option result" where
  "discover cfg n options w =
     discover_from cfg n
       (case opt_timeout options of None \<Rightarrow> healthCheckTimeout cfg | Some t \<Rightarrow> t)
       (case opt_retries options of None \<Rightarrow> retryAttempts cfg | Some r \<Rightarrow> r)
       (case opt_includeHealth options of None \<Rightarrow> False | Some b \<Rightarrow> b)
       0 None w"

text \<open>The call \<^verbatim>\<open>discover(name)\<close> with no options.\<close>

definition no_options :: DiscoverOptions where
  "no_options = \<lparr>opt_timeout = None, opt_retries = None, opt_includeHealth = None\<rparr>"

definition unregister :: "string \<Rightarrow> world \<Rightarrow> unit result" where
  "unregister n w =
     (let wrap = (\<lambda>e. RegistryUnavailableError
                    (''Failed to unregister service '' @ quoted n @ '': '' @ message_of e))
      in case loadRegistry w of
           (Inl e, w1) \<Rightarrow> (Inl (wrap e), w1)
         | (Inr registry, w1) \<Rightarrow>
             (if get_prop (services registry) n = Missing
              then (Inl (ServiceNotFoundError n), w1)
              else (let registry' = registry\<lparr>services := AList.delete n (services registry),
                                             lastUpdated := clock w1\<rparr>
                    in case saveRegistry registry' w1 of
                         (Inl e, w2) \<Rightarrow> (Inl (wrap e), w2)
                       | (Inr u, w2) \<Rightarrow> (Inr (), w2))))"




definition listServices :: "world \<Rightarrow> ServiceInfo list result" where
  "listServices w =
     (case loadRegistry w of
        (Inl e, w1) \<Rightarrow>
          (Inl (RegistryUnavailableError (''Failed to list services: '' @ message_of e)), w1)
      | (Inr registry, w1) \<Rightarrow> (Inr (map snd (own_entries (services registry))), w1))"

text \<open>
  One round of the loop in \<^verbatim>\<open>cleanup\<close>, on the entry \<open>(n, service)\<close> of the snapshot
  taken before the loop, with the services kept so far, the \<^verbatim>\<open>hasChanges\<close> flag
  and the environment. The \<^verbatim>\<open>catch\<close> around the probe deletes as well, but the
  probe never throws.
\<close>

definition cleanup_entry ::
  "int \<Rightarrow> int \<Rightarrow> string \<times> ServiceInfo
     \<Rightarrow> (string \<times> ServiceInfo) list \<times> bool \<times> world
     \<Rightarrow> (string \<times> ServiceInfo) list \<times> bool \<times> world" where
  "cleanup_entry now timeout entry st =
     (case entry of (n, service) \<Rightarrow>
      case st of (svcs, hasChanges, w) \<Rightarrow>
        if now - startedAt service > timeout then
          (if (case pid service of None \<Rightarrow> False | Some p \<Rightarrow> p \<noteq> 0 \<and> kill0_throws p w)
           then (AList.delete n svcs, True, w)
           else (case healthCheckUrl service of
                   None \<Rightarrow> st
                 | Some url \<Rightarrow>
                     if url = [] then st
                     else (case performHealthCheck url 2000 w of
                             (h, w1) \<Rightarrow>
                               if h then (svcs, hasChanges, w1)
                               else (AList.delete n svcs, True, w1))))
        else st)"

definition cleanup_try :: "config \<Rightarrow> world \<Rightarrow> unit result" where
  "cleanup_try cfg w =
     (case loadRegistry w of
        (Inl e, w1) \<Rightarrow> (Inl e, w1)
      | (Inr registry, w1) \<Rightarrow>
          (case fold (cleanup_entry (clock w1) (serviceTimeout cfg))
                  (own_entries (services registry)) (services registry, False, w1) of
             (svcs, hasChanges, w2) \<Rightarrow>
               if hasChanges
               then saveRegistry (registry\<lparr>services := svcs, lastUpdated := clock w2\<rparr>) w2
               else (Inr (), w2)))"

text \<open>\<^verbatim>\<open>cleanup\<close>: the whole body is in a \<^verbatim>\<open>try\<close> whose handler only warns.\<close>

definition cleanup :: "config \<Rightarrow> world \<Rightarrow> unit result" where
  "cleanup cfg w =
     (case cleanup_try cfg w of
        (Inl e, w1) \<Rightarrow> (Inr (), w1)
      | (Inr u, w1) \<Rightarrow> (Inr (), w1))"

section \<open>The HTTP-backed adapter (browser/browser-registry.ts)\<close>

definition CACHE_TTL :: int where
  "CACHE_TTL = 5000"

text \<open>
  \<^verbatim>\<open>performHealthCheck\<close> of the browser adapter: as above, except that a
  cross-origin failure counts as healthy.
\<close>

definition browser_performHealthCheck :: "string \<Rightarrow> int \<Rightarrow> world \<Rightarrow> bool \<times> world" where
  "browser_performHealthCheck url timeout w =
     ((case map_of (http w) url of
         Some (Response ok body) \<Rightarrow> ok
       | Some CorsError \<Rightarrow> True
       | Some NetworkError \<Rightarrow> False
       | None \<Rightarrow> False),
      w\<lparr>net_log := net_log w @ [url]\<rparr>)"

text \<open>
  The outcome of \<^verbatim>\<open>fetch(registryApiUrl)\<close> followed by \<^verbatim>\<open>response.json()\<close>: what
  was parsed, or the error thrown inside the \<^verbatim>\<open>try\<close>.
\<close>

definition fetch_snapshot :: "string \<Rightarrow> world \<Rightarrow> cached result" where
  "fetch_snapshot url w =
     (let (ok, w1) = io_ok w;
          w2 = w1\<lparr>net_log := net_log w1 @ [url]\<rparr>
      in if \<not> ok then (Inl (Failure ''Failed to fetch''), w2)
         else (case map_of (http w2) url of
                 Some (Response True (Body registry)) \<Rightarrow> (Inr (Shaped registry), w2)
               | Some (Response True Misshapen) \<Rightarrow> (Inr Unshaped, w2)
               | Some (Response True NotJson) \<Rightarrow> (Inl (Failure ''Unexpected token in JSON''), w2)
               | Some (Response False b) \<Rightarrow> (Inl (Failure ''HTTP error status''), w2)
               | Some NetworkError \<Rightarrow> (Inl (Failure ''Failed to fetch''), w2)
               | Some CorsError \<Rightarrow> (Inl (Failure ''Failed to fetch (CORS)''), w2)
               | None \<Rightarrow> (Inl (Failure ''Failed to fetch''), w2)))"

text \<open>
  Both callers of \<^verbatim>\<open>fetchRegistry\<close> read \<^verbatim>\<open>registry.services\<close> at once, inside
  their own \<^verbatim>\<open>try\<close>. The model joins that first read to the call: a returned value
  without usable \<^verbatim>\<open>services\<close> (fresh, cached or stale) gives the \<^verbatim>\<open>TypeError\<close> of
  that read, raised to the caller's handler, not to the handler inside
  \<^verbatim>\<open>fetchRegistry\<close>.
\<close>

definition read_services :: "cached \<Rightarrow> error + ServiceRegistry" where
  "read_services c =
     (case c of
        Shaped registry \<Rightarrow> Inr registry
      | Unshaped \<Rightarrow> Inl (Failure ''Cannot read properties of undefined''))"

definition fetchRegistry :: "config \<Rightarrow> world \<Rightarrow> ServiceRegistry result" where
  "fetchRegistry cfg w =
     (let cacheKey = registryApiUrl cfg;
          now = clock w;
          cached = map_of (cache w) cacheKey
      in case (case cached of
                 None \<Rightarrow> None
               | Some (d, timestamp) \<Rightarrow> if now - timestamp < CACHE_TTL then Some d else None) of
           Some d \<Rightarrow> (read_services d, w)
         | None \<Rightarrow>
             (case fetch_snapshot (registryApiUrl cfg) w of
                (Inr registry, w1) \<Rightarrow>
                  (read_services registry,
                   w1\<lparr>cache := AList.update cacheKey (registry, now) (cache w1)\<rparr>)
              | (Inl e, w1) \<Rightarrow>
                  (case map_of (cache w1) cacheKey of
                     Some (d, timestamp) \<Rightarrow> (read_services d, w1)
                   | None \<Rightarrow>
                       (Inl (RegistryUnavailableError
                          (''Failed to fetch registry from '' @ registryApiUrl cfg @ '': ''
                             @ message_of e)), w1))))"

definition browser_register :: "string \<Rightarrow> RegisterOptions \<Rightarrow> world \<Rightarrow> unit result" where
  "browser_register n options w =
     (Inl (RegistryUnavailableError
        (''Service registration is not supported in browser environment. ''
         @ ''Services should register themselves via their Node.js processes.'')), w)"

definition browser_unregister :: "string \<Rightarrow> world \<Rightarrow> unit result" where
  "browser_unregister n w =
     (Inl (RegistryUnavailableError
        (''Service unregistration is not supported in browser environment. ''
         @ ''Services should unregister themselves via their Node.js processes.'')), w)"

text \<open>One attempt of the browser's \<^verbatim>\<open>discover\<close> after the snapshot has been
  fetched: nothing is written back, the probe result is put into the returned copy.\<close>

definition browser_discover_loaded ::
  "string \<Rightarrow> int \<Rightarrow> bool \<Rightarrow> ServiceRegistry \<Rightarrow> world \<Rightarrow> found option \<times> world" where
  "browser_discover_loaded n timeout includeHealth registry w =
     (case get_prop (services registry) n of
        Missing \<Rightarrow> (None, w)
      | Inherited \<Rightarrow> (Some (Member n), w)
      | Own service \<Rightarrow>
          (case (if includeHealth then healthCheckUrl service else None) of
             None \<Rightarrow> (Some (Record service), w)
           | Some url \<Rightarrow>
               if url = [] then (Some (Record service), w)
               else (case browser_performHealthCheck url timeout w of
                       (h, w1) \<Rightarrow>
                         (Some (Record (service\<lparr>isHealthy := Some h,
                                                 lastHealthCheck := Some (clock w1)\<rparr>)), w1))))"

function browser_discover_from ::
  "config \<Rightarrow> string \<Rightarrow> int \<Rightarrow> int \<Rightarrow> bool \<Rightarrow> int \<Rightarrow> error option \<Rightarrow> world
     \<Rightarrow> found option result" where
  "browser_discover_from cfg n timeout retries includeHealth attempt lastError w =
     (if attempt \<le> retries then
        (case fetchRegistry cfg w of
           (Inr registry, w1) \<Rightarrow>
             (case browser_discover_loaded n timeout includeHealth registry w1 of
                (r, w2) \<Rightarrow> (Inr r, w2))
         | (Inl e, w1) \<Rightarrow>
             browser_discover_from cfg n timeout retries includeHealth (attempt + 1) (Some e)
               (if attempt < retries then delay (retryDelay cfg) w1 else w1))
      else (case lastError of
              Some e \<Rightarrow>
                (Inl (RegistryUnavailableError
                   (''Failed to discover service '' @ quoted n @ '' after '' @ show_int (retries + 1)
                      @ '' attempts: '' @ message_of e)), w)
            | None \<Rightarrow> (Inr None, w)))"
  by pat_completeness auto
termination
  by (relation "measure (\<lambda>(cfg, n, timeout, retries, includeHealth, attempt, lastError, w).
        nat (retries + 1 - attempt))") auto

definition browser_discover ::
  "config \<Rightarrow> string \<Rightarrow> DiscoverOptions \<Rightarrow> world \<Rightarrow> found option result" where
  "browser_discover cfg n options w =
     browser_discover_from cfg n
       (case opt_timeout options of None \<Rightarrow> healthCheckTimeout cfg | Some t \<Rightarrow> t)
       (case opt_retries options of None \<Rightarrow> retryAttempts cfg | Some r \<Rightarrow> r)
       (case opt_includeHealth options of None \<Rightarrow> False | Some b \<Rightarrow> b)
       0 None w"


definition browser_listServices :: "config \<Rightarrow> world \<Rightarrow> ServiceInfo list result" where
  "browser_listServices cfg w =
     (case fetchRegistry cfg w of
        (Inl e, w1) \<Rightarrow>
          (Inl (RegistryUnavailableError (''Failed to list services: '' @ message_of e)), w1)
      | (Inr registry, w1) \<Rightarrow> (Inr (map snd (own_entries (services registry))), w1))"

text \<open>\<^verbatim>\<open>cleanup\<close> in the browser only clears the local cache.\<close>

definition browser_cleanup :: "world \<Rightarrow> unit result" where
  "browser_cleanup w = (Inr (), w\<lparr>cache := []\<rparr>)"

section \<open>The event-store-backed adapter (node/firebase-registry.ts)\<close>

subsection \<open>Namespace resolution\<close>

text \<open>\<^verbatim>\<open>String.prototype.trim\<close> on code units below 256.\<close>

definition is_space :: "char \<Rightarrow> bool" where
  "is_space c = ((of_char c :: nat) \<in> {9, 10, 11, 12, 13, 32, 160})"

definition trim :: "string \<Rightarrow> string" where
  "trim s = rev (dropWhile is_space (rev (dropWhile is_space s)))"

definition getOrCreateUniqueId :: "world \<Rightarrow> string \<times> world" where
  "getOrCreateUniqueId w =
     (case (case user_id_file w of
              None \<Rightarrow> None
            | Some existingId \<Rightarrow> if trim existingId = [] then None else Some (trim existingId)) of
        Some existing \<Rightarrow> (sanitizeUserId existing, w)
      | None \<Rightarrow>
          (let uniqueId = ''user-'' @ show_int (clock w) @ ''-'' @ random_token w;
               sanitizedId = sanitizeUserId uniqueId;
               (ok, w1) = io_ok w
           in (sanitizedId, if ok then w1\<lparr>user_id_file := Some sanitizedId\<rparr> else w1)))"

text \<open>
  \<^verbatim>\<open>getUserId\<close>: the environment variable, then the part of the source-control
  e-mail before \<open>@\<close>, then the system user name, then the stored or generated id.
\<close>

definition getUserId :: "world \<Rightarrow> string \<times> world" where
  "getUserId w =
     (if truthy_str (env_user_id w) then (sanitizeUserId (the (env_user_id w)), w)
      else if truthy_str (map_option trim (git_email w))
      then (sanitizeUserId (takeWhile (\<lambda>c. c \<noteq> CHR ''@'') (trim (the (git_email w)))), w)
      else if truthy_str (os_username w) then (sanitizeUserId (the (os_username w)), w)
      else getOrCreateUniqueId w)"

subsection \<open>Initialization and fallback\<close>

text \<open>
  \<^verbatim>\<open>initializeFirebase\<close>. It returns at once when \<^verbatim>\<open>isInitialized\<close> is set. Otherwise
  the whole \<^verbatim>\<open>try\<close> (configuration, SDK import, application, database references) is
  one attempt whose success the environment decides; the handler of a failed attempt
  warns and sets \<^verbatim>\<open>isInitialized = false\<close>.
\<close>

definition initializeFirebase :: "world \<Rightarrow> world" where
  "initializeFirebase w =
     (if isInitialized w then w
      else (let w1 = w\<lparr>init_attempts := init_attempts w + 1\<rparr>
            in case firebase_up w1 of
                 [] \<Rightarrow> w1\<lparr>isInitialized := False\<rparr>
               | up # rest \<Rightarrow>
                   if up
                   then (case getUserId (w1\<lparr>firebase_up := rest\<rparr>) of
                           (userId, w2) \<Rightarrow> w2\<lparr>namespace := userId, isInitialized := True\<rparr>)
                   else w1\<lparr>firebase_up := rest, isInitialized := False\<rparr>))"

subsection \<open>Operations\<close>

text \<open>
  The fallback registry, as the constructor built it: the file-backed adapter, or,
  when \<^verbatim>\<open>require('./node-registry.js')\<close> threw, the stand-in whose operations
  resolve without doing anything.
\<close>

definition fallback_register :: "string \<Rightarrow> RegisterOptions \<Rightarrow> world \<Rightarrow> unit result" where
  "fallback_register n options w = (if fallback_mock w then (Inr (), w) else register n options w)"

definition fallback_discover ::
  "config \<Rightarrow> string \<Rightarrow> DiscoverOptions \<Rightarrow> world \<Rightarrow> found option result" where
  "fallback_discover cfg n options w =
     (if fallback_mock w then (Inr None, w) else discover cfg n options w)"

definition fallback_unregister :: "string \<Rightarrow> world \<Rightarrow> unit result" where
  "fallback_unregister n w = (if fallback_mock w then (Inr (), w) else unregister n w)"

definition fallback_listServices :: "world \<Rightarrow> ServiceInfo list result" where
  "fallback_listServices w = (if fallback_mock w then (Inr [], w) else listServices w)"

text \<open>
  The database client is the interface the source declares (\<^verbatim>\<open>set\<close>, \<^verbatim>\<open>update\<close>,
  \<^verbatim>\<open>remove\<close>, \<^verbatim>\<open>once\<close> on a child reference); what it holds is the JSON form of
  what was written (what the SDK makes of values that are not JSON is not in the
  source; the properties of the database are stated for metadata of JSON values).
  Every round trip takes the next outcome of \<open>io\<close>. The timer that
  \<^verbatim>\<open>register\<close> starts for periodic health updates runs later, outside the calls
  modelled here.
\<close>

text \<open>\<^verbatim>\<open>{...options.metadata, userId, hostname, nodeVersion, platform, sessionId}\<close>\<close>

definition fb_metadata :: "(string \<times> mvalue) list option \<Rightarrow> string \<Rightarrow> world \<Rightarrow> (string \<times> jvalue) list" where
  "fb_metadata supplied userId w =
     to_json_meta
       (fold (\<lambda>(k, v). AList.update k (MJson (JString v)))
          [(''userId'', userId),
           (''hostname'', hostname w),
           (''nodeVersion'', node_version w),
           (''platform'', platform w),
           (''sessionId'', userId @ ''-'' @ show_int (clock w))]
          (case supplied of None \<Rightarrow> [] | Some m \<Rightarrow> m))"

definition fb_register_primary :: "string \<Rightarrow> RegisterOptions \<Rightarrow> world \<Rightarrow> unit result" where
  "fb_register_primary n options w =
     (let wrap = (\<lambda>e. RegistryUnavailableError
                    (''Failed to register service '' @ quoted n @ '' with Firebase: '' @ message_of e));
          now = clock w;
          (userId, w1) = getUserId w;
          serviceInfo = \<lparr>name = n,
            port = opt_port options,
            pid = Some (pid_or_own (opt_pid options) w1),
            status = Running,
            startedAt = now,
            healthUrl = opt_healthUrl options,
            healthCheckUrl = healthCheckUrl_of (opt_port options) (opt_healthUrl options),
            metadata = fb_metadata (opt_metadata options) userId w1,
            lastHealthCheck = Some now,
            isHealthy = Some True\<rparr>;
          (ok1, w2) = io_ok w1
      in if \<not> ok1 then (Inl (wrap (Failure ''set failed'')), w2)
         else (let w3 = w2\<lparr>rt_services := AList.update n serviceInfo (rt_services w2)\<rparr>;
                   (ok2, w4) = io_ok w3
               in if \<not> ok2 then (Inl (wrap (Failure ''onDisconnect failed'')), w4)
                  else (let w5 = w4\<lparr>armed := n # armed w4\<rparr>;
                            (ok3, w6) = io_ok w5
                        in if \<not> ok3 then (Inl (wrap (Failure ''set failed'')), w6)
                           else (Inr (),
                                 w6\<lparr>rt_presence :=
                                       AList.update n
                                         \<lparr>online = True, lastSeen = now,
                                          presence_pid = pid_or_own (opt_pid options) w1,
                                          presence_userId = userId,
                                          presence_hostname = hostname w6\<rparr>
                                         (rt_presence w6),
                                     currentServiceName := Some n\<rparr>))))"

definition fb_register :: "string \<Rightarrow> RegisterOptions \<Rightarrow> world \<Rightarrow> unit result" where
  "fb_register n options w =
     (let w0 = initializeFirebase w
      in if \<not> isInitialized w0 then fallback_register n options w0
         else fb_register_primary n options w0)"

definition presence_online :: "string \<Rightarrow> world \<Rightarrow> bool" where
  "presence_online n w = (case map_of (rt_presence w) n of None \<Rightarrow> False | Some p \<Rightarrow> online p)"

definition fb_discover_primary ::
  "config \<Rightarrow> string \<Rightarrow> DiscoverOptions \<Rightarrow> world \<Rightarrow> found option result" where
  "fb_discover_primary cfg n options w =
     (let wrap = (\<lambda>e. RegistryUnavailableError
                    (''Failed to discover service '' @ quoted n @ '': '' @ message_of e));
          (ok1, w1) = io_ok w
      in if \<not> ok1 then (Inl (wrap (Failure ''once failed'')), w1)
         else (case map_of (rt_services w1) n of
                 None \<Rightarrow> (Inr None, w1)
               | Some service \<Rightarrow>
                   (let (ok2, w2) = io_ok w1
                    in if \<not> ok2 then (Inl (wrap (Failure ''once failed'')), w2)
                       else if \<not> presence_online n w2
                       then (let (ok3, w3) = io_ok w2
                             in if \<not> ok3 then (Inl (wrap (Failure ''remove failed'')), w3)
                                else (Inr None,
                                      w3\<lparr>rt_services := AList.delete n (rt_services w3)\<rparr>))
                       else (case (if opt_includeHealth options = Some True
                                   then healthCheckUrl service else None) of
                               None \<Rightarrow> (Inr (Some (Record service)), w2)
                             | Some url \<Rightarrow>
                                 if url = [] then (Inr (Some (Record service)), w2)
                                 else (let (h, w3) =
                                             performHealthCheck url
                                               (if truthy_num (opt_timeout options)
                                                then the (opt_timeout options)
                                                else healthCheckTimeout cfg) w2;
                                           service' = service\<lparr>isHealthy := Some h,
                                                        lastHealthCheck := Some (clock w3)\<rparr>;
                                           (ok4, w4) = io_ok w3
                                       in if ok4
                                          then (Inr (Some (Record service')),
                                                w4\<lparr>rt_services :=
                                                      AList.update n service' (rt_services w4)\<rparr>)
                                          else (Inr (Some (Record (service'\<lparr>isHealthy := Some False\<rparr>))),
                                                w4))))))"

definition fb_discover ::
  "config \<Rightarrow> string \<Rightarrow> DiscoverOptions \<Rightarrow> world \<Rightarrow> found option result" where
  "fb_discover cfg n options w =
     (let w0 = initializeFirebase w
      in if \<not> isInitialized w0 then fallback_discover cfg n options w0
         else fb_discover_primary cfg n options w0)"

text \<open>In the database, removing a path that holds nothing succeeds like any other
  removal.\<close>

definition fb_unregister_primary :: "string \<Rightarrow> world \<Rightarrow> unit result" where
  "fb_unregister_primary n w =
     (let wrap = (\<lambda>e. RegistryUnavailableError
                    (''Failed to unregister service '' @ quoted n @ '': '' @ message_of e));
          (ok1, w1) = io_ok w
      in if \<not> ok1 then (Inl (wrap (Failure ''remove failed'')), w1)
         else (let w2 = w1\<lparr>rt_services := AList.delete n (rt_services w1)\<rparr>;
                   (ok2, w3) = io_ok w2
               in if \<not> ok2 then (Inl (wrap (Failure ''remove failed'')), w3)
                  else (Inr (), w3\<lparr>rt_presence := AList.delete n (rt_presence w3)\<rparr>)))"

definition fb_unregister :: "string \<Rightarrow> world \<Rightarrow> unit result" where
  "fb_unregister n w =
     (let w0 = initializeFirebase w
      in if \<not> isInitialized w0 then fallback_unregister n w0
         else fb_unregister_primary n w0)"


text \<open>The loop of \<^verbatim>\<open>listServices\<close> over the entries read from the database, with the
  list built so far; a failed round trip leaves the loop with the error.\<close>

fun fb_list_loop ::
  "(string \<times> ServiceInfo) list \<Rightarrow> ServiceInfo list \<Rightarrow> world \<Rightarrow> ServiceInfo list result" where
  "fb_list_loop [] serviceList w = (Inr serviceList, w)"
| "fb_list_loop ((serviceName, serviceInfo) # rest) serviceList w =
     (case io_ok w of
        (ok1, w1) \<Rightarrow>
          if \<not> ok1 then (Inl (Failure ''once failed''), w1)
          else if presence_online serviceName w1
          then fb_list_loop rest (serviceList @ [serviceInfo]) w1
          else (case io_ok w1 of
                  (ok2, w2) \<Rightarrow>
                    if \<not> ok2 then (Inl (Failure ''remove failed''), w2)
                    else fb_list_loop rest serviceList
                           (w2\<lparr>rt_services := AList.delete serviceName (rt_services w2)\<rparr>)))"

definition fb_listServices_primary :: "world \<Rightarrow> ServiceInfo list result" where
  "fb_listServices_primary w =
     (let wrap = (\<lambda>e. RegistryUnavailableError (''Failed to list services: '' @ message_of e));
          (ok1, w1) = io_ok w
      in if \<not> ok1 then (Inl (wrap (Failure ''once failed'')), w1)
         else if rt_services w1 = [] then (Inr [], w1)
         else (case fb_list_loop (own_entries (rt_services w1)) [] w1 of
                 (Inl e, w2) \<Rightarrow> (Inl (wrap e), w2)
               | (Inr serviceList, w2) \<Rightarrow> (Inr serviceList, w2)))"

definition fb_listServices :: "world \<Rightarrow> ServiceInfo list result" where
  "fb_listServices w =
     (let w0 = initializeFirebase w
      in if \<not> isInitialized w0 then fallback_listServices w0
         else fb_listServices_primary w0)"

text \<open>
  \<^verbatim>\<open>cleanup\<close> of the event-store adapter: no \<^verbatim>\<open>try\<close> around the listing. In the
  loop, the probe and the first \<^verbatim>\<open>unregister\<close> sit in a \<^verbatim>\<open>try\<close> whose handler
  calls \<^verbatim>\<open>unregister\<close> once more; an error of that second call, like an error of
  \<^verbatim>\<open>listServices\<close>, leaves the function.
\<close>

fun fb_cleanup_loop :: "ServiceInfo list \<Rightarrow> world \<Rightarrow> unit result" where
  "fb_cleanup_loop [] w = (Inr (), w)"
| "fb_cleanup_loop (service # rest) w =
     (case healthCheckUrl service of
        None \<Rightarrow> fb_cleanup_loop rest w
      | Some url \<Rightarrow>
          if url = [] then fb_cleanup_loop rest w
          else (case performHealthCheck url 2000 w of
                  (h, w1) \<Rightarrow>
                    if h then fb_cleanup_loop rest w1
                    else (case fb_unregister (name service) w1 of
                            (Inr u, w2) \<Rightarrow> fb_cleanup_loop rest w2
                          | (Inl e, w2) \<Rightarrow>
                              (case fb_unregister (name service) w2 of
                                 (Inr u, w3) \<Rightarrow> fb_cleanup_loop rest w3
                               | (Inl e', w3) \<Rightarrow> (Inl e', w3)))))"

definition fb_cleanup :: "world \<Rightarrow> unit result" where
  "fb_cleanup w =
     (case fb_listServices w of
        (Inl e, w1) \<Rightarrow> (Inl e, w1)
      | (Inr svcs, w1) \<Rightarrow> fb_cleanup_loop svcs w1)"

section \<open>Notions used to state the properties\<close>

text \<open>The record the registry file holds under a name, if the file is a snapshot.\<close>

definition stored :: "string \<Rightarrow> world \<Rightarrow> ServiceInfo option" where
  "stored n w = (case reg_file w of Snapshot registry \<Rightarrow> map_of (services registry) n | _ \<Rightarrow> None)"

text \<open>
  The condition under which one round of the cleanup loop deletes its entry, read off
  the branches of \<open>cleanup_entry\<close>: the entry is older than the timeout, and either its
  pid is set and signalling it throws, or its health-check URL is set and the probe
  does not report \<^verbatim>\<open>ok\<close>.
\<close>

definition removable :: "int \<Rightarrow> int \<Rightarrow> ServiceInfo \<Rightarrow> world \<Rightarrow> bool" where
  "removable now timeout service w =
     (now - startedAt service > timeout \<and>
      ((case pid service of None \<Rightarrow> False | Some p \<Rightarrow> p \<noteq> 0 \<and> kill0_throws p w) \<or>
       (case healthCheckUrl service of
          None \<Rightarrow> False
        | Some url \<Rightarrow> url \<noteq> [] \<and> \<not> fst (performHealthCheck url 2000 w))))"

text \<open>The defaults of the constructors, and a sample environment: nothing registered,
  no file yet, the real-time database out of reach.\<close>

definition default_config :: config where
  "default_config =
     \<lparr>registryApiUrl = ''http://localhost:3001/api/registry'',
      healthCheckTimeout = 5000, retryAttempts = 3, retryDelay = 1000,
      serviceTimeout = 300000\<rparr>"

definition sample_world :: world where
  "sample_world =
     \<lparr>clock = 1000000, self_pid = 4242, kill_ok = [4242], http = [], net_log = [],
      reg_file = NoFile, dir_exists = False, io = [], cache = [],
      firebase_up = [], init_attempts = 0, isInitialized = False, fallback_mock = False,
      namespace = [],
      currentServiceName = None, rt_services = [], rt_presence = [], armed = [],
      env_user_id = None, git_email = None, os_username = Some ''dev'',
      user_id_file = None, random_token = ''k3x9ab'', hostname = ''devbox'',
      node_version = ''v20.11.0'', platform = ''linux''\<rparr>"

text \<open>
  A snapshot of three records registered at time 0, long before the sample clock:
  \<open>ghost\<close> has a pid that cannot be signalled and a health endpoint that answers,
  \<open>zombie\<close> has the pid of the running process and a health endpoint that does not
  answer, \<open>plain\<close> has neither pid nor health endpoint.
\<close>

definition sample_record :: "string \<Rightarrow> int option \<Rightarrow> string option \<Rightarrow> ServiceInfo" where
  "sample_record n p h =
     \<lparr>name = n, port = 3000, pid = p, status = Running, startedAt = 0,
      healthUrl = h, healthCheckUrl = healthCheckUrl_of 3000 h, metadata = [],
      lastHealthCheck = Some 0, isHealthy = Some True\<rparr>"

definition stale_world :: world where
  "stale_world =
     sample_world
       \<lparr>http := [(''http://localhost:3000/up'', Response True NotJson)],
        reg_file := Snapshot
          \<lparr>services =
             [(''ghost'', sample_record ''ghost'' (Some 99999) (Some ''/up'')),
              (''zombie'', sample_record ''zombie'' (Some 4242) (Some ''/down'')),
              (''plain'', sample_record ''plain'' None None)],
           lastUpdated = 0\<rparr>\<rparr>"

text \<open>Two environments agree on everything that concerns initialization.\<close>

definition init_frame :: "world \<Rightarrow> world \<Rightarrow> bool" where
  "init_frame w w' =
     (init_attempts w' = init_attempts w \<and> isInitialized w' = isInitialized w \<and>
      firebase_up w' = firebase_up w)"

text \<open>An environment for the HTTP-backed adapter: the registry endpoint serves a
  snapshot holding the record \<open>plain\<close>, and nothing has been fetched or cached yet.\<close>

definition browser_world :: world where
  "browser_world =
     sample_world
       \<lparr>http := [(''http://localhost:3001/api/registry'',
                  Response True
                    (Body \<lparr>services = [(''plain'', sample_record ''plain'' None None)],
                           lastUpdated = 0\<rparr>))]\<rparr>"

text \<open>An environment for the event-store adapter after a successful initialization,
  with \<open>plain\<close> registered and present.\<close>

definition firebase_world :: world where
  "firebase_world =
     sample_world
       \<lparr>isInitialized := True, namespace := ''dev'',
        rt_services := [(''plain'', sample_record ''plain'' None None)],
        rt_presence := [(''plain'',
           \<lparr>online = True, lastSeen = 0, presence_pid = 4242,
            presence_userId = ''dev'', presence_hostname = ''devbox''\<rparr>)]\<rparr>"


text \<open>
  The health endpoint one round of the cleanup loop probes, read off \<open>cleanup_entry\<close>:
  that of an entry older than the timeout whose process check did not fail and whose
  health-check URL is set; no endpoint otherwise.
\<close>

definition probe_of :: "int \<Rightarrow> int \<Rightarrow> ServiceInfo \<Rightarrow> world \<Rightarrow> string list" where
  "probe_of now timeout service w =
     (if now - startedAt service > timeout \<and>
         \<not> (case pid service of None \<Rightarrow> False | Some p \<Rightarrow> p \<noteq> 0 \<and> kill0_throws p w)
      then (case healthCheckUrl service of None \<Rightarrow> [] | Some url \<Rightarrow> if url = [] then [] else [url])
      else [])"

text \<open>The outcome the environment holds for the next initialization attempt.\<close>

definition attempt_succeeds :: "world \<Rightarrow> bool" where
  "attempt_succeeds w = (case firebase_up w of [] \<Rightarrow> False | up # rest \<Rightarrow> up)"



section \<open>Properties of the sanitization\<close>

lemma collapse_dashes_hd:
  "collapse_dashes (c # s) \<noteq> [] \<and> hd (collapse_dashes (c # s)) = (c::char)"
  by (induction s arbitrary: c) auto

lemma collapse_dashes_no_double: "no_double_dash (collapse_dashes s)"
proof (induction s rule: collapse_dashes.induct)
  case (3 c d s)
  have "collapse_dashes (d # s) \<noteq> [] \<and> hd (collapse_dashes (d # s)) = d"
    by (rule collapse_dashes_hd)
  then obtain t where t: "collapse_dashes (d # s) = d # t"
    by (cases "collapse_dashes (d # s)") auto
  with 3 show ?case by auto
qed simp_all

lemma spec_collapse_both:
  "spec_collapse False s = collapse_dashes s \<and>
   spec_collapse True s =
     (if s \<noteq> [] \<and> hd s = CHR ''-'' then tl (collapse_dashes s) else collapse_dashes s)"
proof (induction s rule: collapse_dashes.induct)
  case (3 c d s)
  then have ih: "spec_collapse False (d # s) = collapse_dashes (d # s)"
    "spec_collapse True (d # s) =
       (if d = CHR ''-'' then tl (collapse_dashes (d # s)) else collapse_dashes (d # s))"
    by (cases "c = CHR ''-'' \<and> d = CHR ''-''"; simp)+
  obtain t where t: "collapse_dashes (d # s) = d # t"
    using collapse_dashes_hd [of d s] by (cases "collapse_dashes (d # s)") auto
  have unf: "\<And>b. spec_collapse b (c # d # s) =
     (if c = CHR ''-''
      then (if b then spec_collapse True (d # s) else c # spec_collapse True (d # s))
      else c # spec_collapse False (d # s))"
    by simp
  show ?case
    unfolding unf ih using t by auto
qed auto

lemma no_double_dash_tl: "no_double_dash (c # s) \<Longrightarrow> no_double_dash s"
  by (cases s) auto

lemma no_double_dash_dropWhile:
  "no_double_dash s \<Longrightarrow> dropWhile (\<lambda>c. c = CHR ''-'') s = remove_leading_dash s"
  by (cases s rule: no_double_dash.cases) (auto simp: remove_leading_dash_def)

lemma no_double_dash_rev: "no_double_dash (rev s) = no_double_dash s"
proof (induction s rule: no_double_dash.induct)
  case (3 c d s)
  have app: "\<And>xs a b. no_double_dash (xs @ [a, b]) =
      (no_double_dash (xs @ [a]) \<and> \<not> (a = CHR ''-'' \<and> b = CHR ''-''))"
  proof -
    fix xs :: string and a b
    show "no_double_dash (xs @ [a, b]) =
      (no_double_dash (xs @ [a]) \<and> \<not> (a = CHR ''-'' \<and> b = CHR ''-''))"
      by (induction xs rule: no_double_dash.induct) auto
  qed
  have "no_double_dash (rev (c # d # s)) = no_double_dash (rev s @ [d, c])" by simp
  also have "\<dots> = (no_double_dash (rev s @ [d]) \<and> \<not> (d = CHR ''-'' \<and> c = CHR ''-''))"
    by (rule app)
  also have "\<dots> = no_double_dash (c # d # s)" using 3 by auto
  finally show ?case .
qed simp_all

lemma remove_trailing_dash_rev:
  "remove_trailing_dash s = rev (remove_leading_dash (rev s))"
  by (cases s rule: rev_cases) (auto simp: remove_trailing_dash_def remove_leading_dash_def)

lemma no_double_dash_trim:
  assumes "no_double_dash s"
  shows "spec_trim s = remove_edge_dashes s"
proof -
  have 1: "dropWhile (\<lambda>c. c = CHR ''-'') s = remove_leading_dash s"
    using assms by (rule no_double_dash_dropWhile)
  have "no_double_dash (remove_leading_dash s)"
    using assms by (cases s) (auto simp: remove_leading_dash_def dest: no_double_dash_tl)
  then have "no_double_dash (rev (remove_leading_dash s))"
    by (simp add: no_double_dash_rev)
  then have 2: "dropWhile (\<lambda>c. c = CHR ''-'') (rev (remove_leading_dash s))
      = remove_leading_dash (rev (remove_leading_dash s))"
    by (rule no_double_dash_dropWhile)
  show ?thesis
    by (simp add: spec_trim_def remove_edge_dashes_def 1 2 remove_trailing_dash_rev)
qed

lemma sanitize_refines: "sanitizeUserId s = spec_sanitize s"
proof -
  let ?r = "replace_invalid (toLowerCase s)"
  have "spec_collapse False ?r = collapse_dashes ?r"
    by (simp add: spec_collapse_both)
  moreover have "spec_trim (collapse_dashes ?r) = remove_edge_dashes (collapse_dashes ?r)"
    by (rule no_double_dash_trim) (rule collapse_dashes_no_double)
  ultimately show ?thesis
    by (simp add: sanitizeUserId_def spec_sanitize_def fallback_user_def
        replace_invalid_def toLowerCase_def)
qed

lemma collapse_all_dashes:
  "s \<noteq> [] \<Longrightarrow> \<forall>c\<in>set s. c = CHR ''-'' \<Longrightarrow> collapse_dashes s = ''-''"
  by (induction s rule: collapse_dashes.induct) auto

lemma sanitize_all_invalid:
  assumes "\<forall>c\<in>set s. \<not> allowed (toLowerCase_char c)"
  shows "sanitizeUserId s = ''unknown-user''"
proof (cases "s = []")
  case True
  then show ?thesis
    by (simp add: sanitizeUserId_def fallback_user_def toLowerCase_def replace_invalid_def
        remove_edge_dashes_def remove_leading_dash_def remove_trailing_dash_def)
next
  case False
  let ?r = "replace_invalid (toLowerCase s)"
  have "?r \<noteq> []" using False by (simp add: replace_invalid_def toLowerCase_def)
  moreover have "\<forall>c\<in>set ?r. c = CHR ''-''"
    using assms by (auto simp: replace_invalid_def toLowerCase_def)
  ultimately have "collapse_dashes ?r = ''-''" by (rule collapse_all_dashes)
  then show ?thesis
    by (simp add: sanitizeUserId_def fallback_user_def
        remove_edge_dashes_def remove_leading_dash_def remove_trailing_dash_def)
qed

lemma sanitize_length: "length (sanitizeUserId s) \<le> 50"
  by (simp add: sanitizeUserId_def fallback_user_def Let_def)

lemma sanitize_example:
  "sanitizeUserId ''User@Name.With#Invalid$Chars!'' = ''user-name-with-invalid-chars''"
  by code_simp

text \<open>
  C9. The sanitization computed by the source agrees, on every input, with the steps
  the specification lists (lowercase, replace characters outside the allowed set by a
  dash, collapse runs of dashes, trim dashes at both ends, truncate to 50 characters,
  fall back to the constant for an empty result). The input
  \<^verbatim>\<open>User@Name.With#Invalid$Chars!\<close> maps to \<^verbatim>\<open>user-name-with-invalid-chars\<close>; the
  empty input, and every input all of whose characters are invalid after lowercasing,
  maps to the fallback constant; and the result never has more than 50 characters, so
  in particular not for an input of 100 characters.
\<close>

theorem sanitizeUserId_spec:
  "sanitizeUserId s = spec_sanitize s
   \<and> sanitizeUserId ''User@Name.With#Invalid$Chars!'' = ''user-name-with-invalid-chars''
   \<and> sanitizeUserId [] = fallback_user
   \<and> ((\<forall>c\<in>set s. \<not> allowed (toLowerCase_char c)) \<longrightarrow> sanitizeUserId s = fallback_user)
   \<and> (length s = 100 \<longrightarrow> length (sanitizeUserId s) \<le> 50)"
  using sanitize_refines [of s] sanitize_example sanitize_all_invalid [of s]
    sanitize_all_invalid [of "[]"] sanitize_length [of s]
  by (simp add: fallback_user_def)

theorem sanitizeUserId_spec_witness:
  "sanitizeUserId (replicate 100 CHR ''@'') = fallback_user
   \<and> length (replicate 100 CHR ''@'') = 100
   \<and> length (sanitizeUserId (replicate 100 CHR ''@'')) \<le> 50"
proof -
  have inv: "\<forall>c\<in>set (replicate 100 CHR ''@''). \<not> allowed (toLowerCase_char c)"
    by (simp add: allowed_def toLowerCase_char_def)
  have len: "length (replicate 100 CHR ''@'') = 100" by simp
  from sanitizeUserId_spec [of "replicate 100 CHR ''@''"] inv len show ?thesis
    by blast
qed


section \<open>Properties of the file-backed adapter\<close>

text \<open>Enumeration only reorders the own properties.\<close>


lemma own_entries_set: "set (own_entries obj) = set obj"
  by (auto simp: own_entries_def)

lemma own_entries_distinct:
  assumes "distinct (map fst obj)"
  shows "distinct (map fst (own_entries obj))"
proof -
  from assms have d: "distinct obj" and i: "inj_on fst (set obj)"
    by (simp_all add: distinct_map)
  have "distinct (own_entries obj)"
    using d by (auto simp: own_entries_def)
  moreover have "inj_on fst (set (own_entries obj))"
    using i by (simp add: own_entries_set)
  ultimately show ?thesis by (simp add: distinct_map)
qed

lemma own_entries_map_of:
  assumes "distinct (map fst obj)"
  shows "map_of (own_entries obj) = map_of obj"
  using assms own_entries_distinct [OF assms] own_entries_set [of obj]
  by (simp add: map_of_inject_set)


lemma io_ok_snd: "\<exists>l. snd (io_ok w) = w\<lparr>io := l\<rparr>"
proof (cases "io w")
  case Nil
  then have "snd (io_ok w) = w\<lparr>io := []\<rparr>" by (simp add: io_ok_def)
  then show ?thesis ..
next
  case (Cons b bs)
  then have "snd (io_ok w) = w\<lparr>io := bs\<rparr>" by (simp add: io_ok_def)
  then show ?thesis ..
qed

lemma removable_net_log [simp]:
  "removable now t s (w\<lparr>net_log := l\<rparr>) = removable now t s w"
  by (simp add: removable_def kill0_throws_def performHealthCheck_def split: option.splits)

lemma removable_io [simp]:
  "removable now t s (w\<lparr>io := l\<rparr>) = removable now t s w"
  by (simp add: removable_def kill0_throws_def performHealthCheck_def split: option.splits)

lemma probe_of_net_log [simp]:
  "probe_of now t s (w\<lparr>net_log := l\<rparr>) = probe_of now t s w"
  by (simp add: probe_of_def kill0_throws_def split: option.splits)

lemma probe_of_io [simp]:
  "probe_of now t s (w\<lparr>io := l\<rparr>) = probe_of now t s w"
  by (simp add: probe_of_def kill0_throws_def split: option.splits)

text \<open>One round of the loop: what it deletes, and which endpoint it probes.\<close>

lemma cleanup_entry_result:
  "cleanup_entry now t (m, s) (svcs, hc, w) =
     (if removable now t s w then AList.delete m svcs else svcs,
      hc \<or> removable now t s w,
      w\<lparr>net_log := net_log w @ probe_of now t s w\<rparr>)"
proof -
  have same: "w\<lparr>net_log := net_log w\<rparr> = w" by simp
  show ?thesis
  proof (cases "now - startedAt s > t")
    case False
    then show ?thesis
      by (simp add: cleanup_entry_def removable_def probe_of_def)
  next
    case old: True
    show ?thesis
    proof (cases "case pid s of None \<Rightarrow> False | Some p \<Rightarrow> p \<noteq> 0 \<and> kill0_throws p w")
      case True
      with old show ?thesis
        by (simp add: cleanup_entry_def removable_def probe_of_def)
    next
      case alive: False
      show ?thesis
      proof (cases "healthCheckUrl s")
        case None
        with old alive show ?thesis
          by (simp add: cleanup_entry_def removable_def probe_of_def)
      next
        case (Some url)
        show ?thesis
        proof (cases "url = []")
          case True
          with Some old alive show ?thesis
            by (simp add: cleanup_entry_def removable_def probe_of_def)
        next
          case False
          obtain h where h: "performHealthCheck url 2000 w = (h, w\<lparr>net_log := net_log w @ [url]\<rparr>)"
            by (simp add: performHealthCheck_def)
          from False Some old alive h show ?thesis
            by (simp add: cleanup_entry_def removable_def probe_of_def)
        qed
      qed
    qed
  qed
qed

lemma fold_cleanup_result:
  assumes "distinct (map fst es)"
  shows "\<exists>svcs'.
     fold (cleanup_entry now t) es (svcs, hc, w) =
       (svcs', hc \<or> (\<exists>(m, s)\<in>set es. removable now t s w),
        w\<lparr>net_log := net_log w @ concat (map (\<lambda>(m, s). probe_of now t s w) es)\<rparr>)
     \<and> (\<forall>n. map_of svcs' n =
           (case map_of es n of
              None \<Rightarrow> map_of svcs n
            | Some s \<Rightarrow> if removable now t s w then None else map_of svcs n))"
  using assms
proof (induction es arbitrary: svcs hc w)
  case Nil
  show ?case by (intro exI [of _ svcs]) simp
next
  case (Cons e es)
  obtain m s where e: "e = (m, s)" by (cases e)
  let ?svcs1 = "if removable now t s w then AList.delete m svcs else svcs"
  let ?w1 = "w\<lparr>net_log := net_log w @ probe_of now t s w\<rparr>"
  have step: "cleanup_entry now t (m, s) (svcs, hc, w) =
       (?svcs1, hc \<or> removable now t s w, ?w1)"
    by (rule cleanup_entry_result)
  from Cons.prems e have dist: "distinct (map fst es)" and fresh: "m \<notin> fst ` set es" by auto
  from Cons.IH [OF dist, of ?svcs1 "hc \<or> removable now t s w" ?w1]
  obtain svcs' where
    ih1: "fold (cleanup_entry now t) es (?svcs1, hc \<or> removable now t s w, ?w1) =
       (svcs', (hc \<or> removable now t s w) \<or> (\<exists>(m, s)\<in>set es. removable now t s ?w1),
        ?w1\<lparr>net_log := net_log ?w1 @ concat (map (\<lambda>(m, s). probe_of now t s ?w1) es)\<rparr>)"
    and ih2: "\<forall>n. map_of svcs' n =
           (case map_of es n of
              None \<Rightarrow> map_of ?svcs1 n
            | Some s \<Rightarrow> if removable now t s ?w1 then None else map_of ?svcs1 n)"
    by blast
  have none: "map_of es m = None" using fresh by (simp add: map_of_eq_None_iff)
  have "fold (cleanup_entry now t) (e # es) (svcs, hc, w) =
       (svcs', hc \<or> (\<exists>(m, s)\<in>set (e # es). removable now t s w),
        w\<lparr>net_log := net_log w @ concat (map (\<lambda>(m, s). probe_of now t s w) (e # es))\<rparr>)"
    using step ih1 e by auto
  moreover have "\<forall>n. map_of svcs' n =
           (case map_of (e # es) n of
              None \<Rightarrow> map_of svcs n
            | Some s \<Rightarrow> if removable now t s w then None else map_of svcs n)"
  proof
    fix n
    show "map_of svcs' n =
           (case map_of (e # es) n of
              None \<Rightarrow> map_of svcs n
            | Some s \<Rightarrow> if removable now t s w then None else map_of svcs n)"
    proof (cases "n = m")
      case True
      with ih2 none e show ?thesis by (simp add: delete_conv')
    next
      case False
      with ih2 e show ?thesis by (auto simp: delete_conv' split: option.splits)
    qed
  qed
  ultimately show ?case by blast
qed

lemma loadRegistry_snapshot:
  "reg_file w = Snapshot registry \<Longrightarrow>
   loadRegistry w =
     (if fst (io_ok w) then Inr registry else Inl (Failure ''EACCES: read''), snd (io_ok w))"
  by (simp add: loadRegistry_def io_ok_def split: list.splits)

text \<open>What \<open>cleanup\<close> leaves in the file, for any script of store failures: the snapshot
  as it was, or the snapshot without exactly the removable entries; and what it has
  requested over the network when the snapshot loaded.\<close>

lemma cleanup_file:
  assumes snap: "reg_file w = Snapshot registry"
    and dist: "distinct (map fst (services registry))"
  shows "fst (cleanup cfg w) = Inr () \<and>
     (fst (io_ok w) \<longrightarrow>
        net_log (snd (cleanup cfg w)) =
          net_log w @ concat (map (\<lambda>(m, s). probe_of (clock w) (serviceTimeout cfg) s w)
                                (own_entries (services registry)))) \<and>
     ((reg_file (snd (cleanup cfg w)) = Snapshot registry \<and>
        (io w = [] \<longrightarrow> (\<forall>(m, s)\<in>set (services registry). \<not> removable (clock w) (serviceTimeout cfg) s w)))
      \<or> (\<exists>svcs' lu. reg_file (snd (cleanup cfg w)) = Snapshot (registry\<lparr>services := svcs', lastUpdated := lu\<rparr>)
            \<and> (\<forall>n. map_of svcs' n =
                  (case map_of (services registry) n of
                     None \<Rightarrow> None
                   | Some s \<Rightarrow> if removable (clock w) (serviceTimeout cfg) s w then None else Some s))))"
proof -
  obtain l0 where w1: "snd (io_ok w) = w\<lparr>io := l0\<rparr>" using io_ok_snd by blast
  let ?w1 = "w\<lparr>io := l0\<rparr>"
  let ?es = "own_entries (services registry)"
  have nil: "io w = [] \<Longrightarrow> fst (io_ok w) \<and> l0 = []"
  proof -
    assume n: "io w = []"
    then have "io_ok w = (True, w)" by (simp add: io_ok_def)
    with w1 have "w = w\<lparr>io := l0\<rparr>" by simp
    then have "io w = io (w\<lparr>io := l0\<rparr>)" by simp
    with n have "l0 = []" by simp
    with \<open>io_ok w = (True, w)\<close> show ?thesis by simp
  qed
  show ?thesis
  proof (cases "fst (io_ok w)")
    case False
    then have "cleanup cfg w = (Inr (), ?w1)"
      using snap w1 by (simp add: cleanup_def cleanup_try_def loadRegistry_snapshot)
    with snap False nil show ?thesis by auto
  next
    case True
    then have load: "loadRegistry w = (Inr registry, ?w1)"
      using snap w1 by (simp add: loadRegistry_snapshot)
    have dist': "distinct (map fst ?es)" using dist by (rule own_entries_distinct)
    from fold_cleanup_result [OF dist', of "clock ?w1" "serviceTimeout cfg" "services registry" False ?w1]
    obtain svcs' where
      f: "fold (cleanup_entry (clock ?w1) (serviceTimeout cfg)) ?es
            (services registry, False, ?w1) =
          (svcs', False \<or> (\<exists>(m, s)\<in>set ?es.
                removable (clock ?w1) (serviceTimeout cfg) s ?w1),
           ?w1\<lparr>net_log := net_log ?w1 @
              concat (map (\<lambda>(m, s). probe_of (clock ?w1) (serviceTimeout cfg) s ?w1) ?es)\<rparr>)"
      and m: "\<forall>n. map_of svcs' n =
           (case map_of ?es n of
              None \<Rightarrow> map_of (services registry) n
            | Some s \<Rightarrow> if removable (clock ?w1) (serviceTimeout cfg) s ?w1 then None
                         else map_of (services registry) n)"
      by blast
    let ?probes = "concat (map (\<lambda>(m, s). probe_of (clock w) (serviceTimeout cfg) s w) ?es)"
    let ?w2 = "?w1\<lparr>net_log := net_log w @ ?probes\<rparr>"
    let ?hc = "\<exists>(m, s)\<in>set (services registry). removable (clock w) (serviceTimeout cfg) s w"
    have f': "fold (cleanup_entry (clock w) (serviceTimeout cfg)) ?es
            (services registry, False, ?w1) = (svcs', ?hc, ?w2)"
      using f by (simp add: own_entries_set)
    have m': "\<forall>n. map_of svcs' n =
                  (case map_of (services registry) n of
                     None \<Rightarrow> None
                   | Some s \<Rightarrow> if removable (clock w) (serviceTimeout cfg) s w then None else Some s)"
      using m by (auto simp: own_entries_map_of [OF dist] split: option.splits)
    show ?thesis
    proof (cases ?hc)
      case False
      then have "cleanup cfg w = (Inr (), ?w2)"
        using load f' by (simp add: cleanup_def cleanup_try_def)
      with snap False show ?thesis by auto
    next
      case hc: True
      have tr: "cleanup_try cfg w =
          saveRegistry (registry\<lparr>services := svcs', lastUpdated := clock ?w2\<rparr>) ?w2"
        using load f' hc by (simp add: cleanup_try_def)
      have nl: "net_log (snd (cleanup cfg w)) = net_log w @ ?probes"
        using tr by (auto simp: cleanup_def saveRegistry_def io_ok_def split: prod.splits list.splits)
      show ?thesis
      proof (cases "fst (io_ok ?w2)")
        case True
        then have "reg_file (snd (cleanup cfg w)) =
            Snapshot (registry\<lparr>services := svcs', lastUpdated := clock ?w2\<rparr>)"
          and "fst (cleanup cfg w) = Inr ()"
          using tr by (simp_all add: cleanup_def saveRegistry_def split: prod.splits)
        with m' nl show ?thesis by blast
      next
        case False
        then have "reg_file (snd (cleanup cfg w)) = Snapshot registry"
          and "fst (cleanup cfg w) = Inr ()"
          using tr snap by (simp_all add: cleanup_def saveRegistry_def io_ok_def split: prod.splits list.splits)
        moreover have "io w \<noteq> []"
        proof
          assume "io w = []"
          with nil have "l0 = []" by simp
          then have "fst (io_ok ?w2)" by (simp add: io_ok_def)
          with False show False by simp
        qed
        ultimately show ?thesis using nl by auto
      qed
    qed
  qed
qed


lemma show_int_3000: "show_int 3000 = ''3000''"
  by (simp add: show_int_def; code_simp)

lemmas sample_eval = performHealthCheck_def kill0_throws_def stale_world_def
  sample_world_def sample_record_def healthCheckUrl_of_def default_config_def
  truthy_num_def truthy_str_def show_int_3000

lemmas node_eval = cleanup_def cleanup_try_def loadRegistry_def saveRegistry_def io_ok_def
  cleanup_entry_def performHealthCheck_def kill0_throws_def stored_def stale_world_def
  sample_world_def sample_record_def healthCheckUrl_of_def default_config_def
  truthy_num_def truthy_str_def show_int_3000

text \<open>
  C3 (as amended). With the store readable and writable, \<open>cleanup\<close> of the file-backed
  adapter removes a record exactly when its age exceeds the service timeout and at least
  one applicable check fails: its pid is set and signalling the process throws, or
  (the process check not having failed) its health-check URL is set and the probe does
  not answer \<^verbatim>\<open>ok\<close>. Every other record is kept as it is. The two checks are
  alternatives, not a conjunction, and they run in this order: the requests \<open>cleanup\<close>
  makes are, entry by entry, the health endpoints of the entries older than the timeout
  whose process check did not fail, so a failed process check removes the record
  without its health endpoint being probed.
\<close>

theorem cleanup_removes_iff:
  assumes "io w = []"
    and "reg_file w = Snapshot registry"
    and "distinct (map fst (services registry))"
    and "map_of (services registry) n = Some service"
  shows "stored n (snd (cleanup cfg w)) =
     (if clock w - startedAt service > serviceTimeout cfg \<and>
         ((case pid service of None \<Rightarrow> False | Some p \<Rightarrow> p \<noteq> 0 \<and> kill0_throws p w) \<or>
          (case healthCheckUrl service of
             None \<Rightarrow> False
           | Some url \<Rightarrow> url \<noteq> [] \<and> \<not> fst (performHealthCheck url 2000 w)))
      then None else Some service)
   \<and> net_log (snd (cleanup cfg w)) =
       net_log w @
       concat (map (\<lambda>(m, s).
                 if clock w - startedAt s > serviceTimeout cfg \<and>
                    \<not> (case pid s of None \<Rightarrow> False | Some p \<Rightarrow> p \<noteq> 0 \<and> kill0_throws p w)
                 then (case healthCheckUrl s of
                         None \<Rightarrow> []
                       | Some url \<Rightarrow> if url = [] then [] else [url])
                 else [])
               (own_entries (services registry)))"
proof -
  have rem: "(clock w - startedAt service > serviceTimeout cfg \<and>
         ((case pid service of None \<Rightarrow> False | Some p \<Rightarrow> p \<noteq> 0 \<and> kill0_throws p w) \<or>
          (case healthCheckUrl service of
             None \<Rightarrow> False
           | Some url \<Rightarrow> url \<noteq> [] \<and> \<not> fst (performHealthCheck url 2000 w))))
      = removable (clock w) (serviceTimeout cfg) service w"
    by (simp add: removable_def)
  have prb: "(\<lambda>(m, s).
                 if clock w - startedAt s > serviceTimeout cfg \<and>
                    \<not> (case pid s of None \<Rightarrow> False | Some p \<Rightarrow> p \<noteq> 0 \<and> kill0_throws p w)
                 then (case healthCheckUrl s of
                         None \<Rightarrow> []
                       | Some url \<Rightarrow> if url = [] then [] else [url])
                 else [])
      = (\<lambda>(m, s). probe_of (clock w) (serviceTimeout cfg) s w)"
    by (simp add: probe_of_def fun_eq_iff)
  have mem: "(n, service) \<in> set (services registry)"
    using assms(4) by (rule map_of_SomeD)
  have ok: "fst (io_ok w)" using assms(1) by (simp add: io_ok_def)
  from cleanup_file [OF assms(2,3), of cfg]
  show ?thesis
    unfolding rem prb using assms(1,4) mem ok by (auto simp: stored_def)
qed

theorem cleanup_removes_iff_witness:
  "stored ''zombie'' (snd (cleanup default_config stale_world)) = None \<and>
   stored ''ghost'' (snd (cleanup default_config stale_world)) = None \<and>
   stored ''plain'' (snd (cleanup default_config stale_world))
     = Some (sample_record ''plain'' None None) \<and>
   net_log (snd (cleanup default_config stale_world)) = [''http://localhost:3000/down'']"
proof -
  have io: "io stale_world = []" by (simp add: stale_world_def sample_world_def)
  have snap: "reg_file stale_world = Snapshot
          \<lparr>services =
             [(''ghost'', sample_record ''ghost'' (Some 99999) (Some ''/up'')),
              (''zombie'', sample_record ''zombie'' (Some 4242) (Some ''/down'')),
              (''plain'', sample_record ''plain'' None None)],
           lastUpdated = 0\<rparr>"
    by (simp add: stale_world_def sample_world_def)
  from cleanup_removes_iff [OF io snap, of "''zombie''" "sample_record ''zombie'' (Some 4242) (Some ''/down'')" default_config]
    cleanup_removes_iff [OF io snap, of "''ghost''" "sample_record ''ghost'' (Some 99999) (Some ''/up'')" default_config]
    cleanup_removes_iff [OF io snap, of "''plain''" "sample_record ''plain'' None None" default_config]
  show ?thesis
    by (simp add: sample_eval own_entries_def array_index_def)
qed

text \<open>
  The claim C3 as stated fails: \<open>ghost\<close> is removed although its health endpoint
  answers (it is never asked), and \<open>zombie\<close> is removed although its process can be
  signalled.
\<close>

theorem cleanup_removes_despite_life:
  "stored ''ghost'' stale_world = Some (sample_record ''ghost'' (Some 99999) (Some ''/up''))
   \<and> healthCheckUrl (sample_record ''ghost'' (Some 99999) (Some ''/up''))
       = Some ''http://localhost:3000/up''
   \<and> fst (performHealthCheck ''http://localhost:3000/up'' 2000 stale_world)
   \<and> stored ''ghost'' (snd (cleanup default_config stale_world)) = None
   \<and> stored ''zombie'' stale_world = Some (sample_record ''zombie'' (Some 4242) (Some ''/down''))
   \<and> \<not> kill0_throws 4242 stale_world
   \<and> stored ''zombie'' (snd (cleanup default_config stale_world)) = None
   \<and> net_log (snd (cleanup default_config stale_world)) = [''http://localhost:3000/down'']"
  by (simp add: node_eval own_entries_def array_index_def)

text \<open>
  C10. \<open>cleanup\<close> of the file-backed adapter never removes a record that has neither a
  pid nor a health-check URL, whatever its age and whatever the store accesses do:
  the call returns normally and the file still holds the record unchanged.
\<close>

theorem cleanup_keeps_unprobed:
  assumes "reg_file w = Snapshot registry"
    and "distinct (map fst (services registry))"
    and "map_of (services registry) n = Some service"
    and "\<not> truthy_num (pid service)"
    and "\<not> truthy_str (healthCheckUrl service)"
  shows "fst (cleanup cfg w) = Inr () \<and> stored n (snd (cleanup cfg w)) = Some service"
proof -
  have "\<not> removable (clock w) (serviceTimeout cfg) service w"
    using assms(4,5) by (auto simp: removable_def truthy_num_def truthy_str_def split: option.splits)
  with cleanup_file [OF assms(1,2), of cfg] assms(3) show ?thesis
    by (auto simp: stored_def)
qed

theorem cleanup_keeps_unprobed_witness:
  "fst (cleanup default_config stale_world) = Inr () \<and>
   stored ''plain'' (snd (cleanup default_config stale_world))
     = Some (sample_record ''plain'' None None) \<and>
   clock stale_world - startedAt (sample_record ''plain'' None None)
     > serviceTimeout default_config"
proof -
  have snap: "reg_file stale_world = Snapshot
          \<lparr>services =
             [(''ghost'', sample_record ''ghost'' (Some 99999) (Some ''/up'')),
              (''zombie'', sample_record ''zombie'' (Some 4242) (Some ''/down'')),
              (''plain'', sample_record ''plain'' None None)],
           lastUpdated = 0\<rparr>"
    by (simp add: stale_world_def sample_world_def)
  from cleanup_keeps_unprobed [OF snap, of "''plain''" "sample_record ''plain'' None None" default_config]
  show ?thesis
    by (simp add: sample_eval)
qed


section \<open>Error contracts of the adapters\<close>


text \<open>The file-backed and the HTTP-backed \<open>cleanup\<close> return normally on every input.\<close>

lemma cleanup_never_raises: "fst (cleanup cfg w) = Inr ()"
  by (simp add: cleanup_def split: prod.splits sum.splits)

lemma browser_cleanup_never_raises: "fst (browser_cleanup w) = Inr ()"
  by (simp add: browser_cleanup_def)

text \<open>
  C2. The claim holds for the two adapters above, and the event-store adapter breaks it:
  its \<open>cleanup\<close> has no handler around \<open>listServices\<close>. With the database out of
  reach and an unreadable registry file, the file-backed \<open>cleanup\<close> returns normally and
  the event-store \<open>cleanup\<close> raises; with the database reachable and the first round trip
  failing it raises as well.
\<close>

theorem fb_cleanup_raises:
  "fst (cleanup default_config (sample_world\<lparr>reg_file := Garbled\<rparr>)) = Inr ()
   \<and> fst (fb_cleanup (sample_world\<lparr>reg_file := Garbled\<rparr>))
       = Inl (RegistryUnavailableError ''Failed to list services: Unexpected token in JSON'')
   \<and> fst (fb_cleanup (sample_world\<lparr>firebase_up := [True], io := [False]\<rparr>))
       = Inl (RegistryUnavailableError ''Failed to list services: once failed'')"
  by (simp add: cleanup_def cleanup_try_def fb_cleanup_def fb_listServices_def
      fb_listServices_primary_def fallback_listServices_def listServices_def
      initializeFirebase_def getUserId_def
      loadRegistry_def io_ok_def sample_world_def truthy_str_def)

text \<open>\<open>unregister\<close> of the file-backed adapter: \<open>ServiceNotFoundError\<close> for a name the
  loaded snapshot lacks, unless \<^verbatim>\<open>Object.prototype\<close> has a member of that name;
  removal for a name it holds.\<close>

lemma unregister_absent:
  assumes "fst (io_ok w)" and "reg_file w \<noteq> Garbled" and "stored n w = None"
    and "n \<notin> set inherited_names"
  shows "unregister n w = (Inl (ServiceNotFoundError n), snd (io_ok w))"
  using assms
  by (cases "reg_file w")
     (auto simp: unregister_def loadRegistry_def stored_def io_ok_def get_prop_def
        split: list.splits)

lemma unregister_present:
  assumes "io w = []" and "stored n w = Some service"
  shows "fst (unregister n w) = Inr () \<and> stored n (snd (unregister n w)) = None"
  using assms
  by (cases "reg_file w")
     (auto simp: unregister_def loadRegistry_def saveRegistry_def stored_def io_ok_def
        get_prop_def delete_conv')

lemma unregister_inherited:
  assumes "io w = []" and "reg_file w \<noteq> Garbled" and "stored n w = None"
    and "n \<in> set inherited_names"
  shows "fst (unregister n w) = Inr ()"
  using assms
  by (cases "reg_file w")
     (auto simp: unregister_def loadRegistry_def saveRegistry_def stored_def io_ok_def
        get_prop_def)

text \<open>
  C1. For a name that is a proper service name the file-backed adapter does what the
  claim says (the lemmas above); the event-store adapter, once initialized, does not:
  \<open>unregister\<close> of a name that was never registered removes two empty paths and
  succeeds, where the file-backed adapter raises \<open>ServiceNotFoundError\<close>.
\<close>

theorem fb_unregister_absent_succeeds:
  "map_of (rt_services (initializeFirebase (sample_world\<lparr>firebase_up := [True]\<rparr>))) ''ghost'' = None
   \<and> isInitialized (initializeFirebase (sample_world\<lparr>firebase_up := [True]\<rparr>))
   \<and> fst (fb_unregister ''ghost'' (sample_world\<lparr>firebase_up := [True]\<rparr>)) = Inr ()
   \<and> fst (unregister ''ghost'' sample_world) = Inl (ServiceNotFoundError ''ghost'')"
  by (simp add: fb_unregister_def fb_unregister_primary_def unregister_def loadRegistry_def
      initializeFirebase_def getUserId_def io_ok_def sample_world_def truthy_str_def
      get_prop_def inherited_names_def)

text \<open>
  C8. On the HTTP-backed adapter \<open>register\<close> and \<open>unregister\<close> fail for every name,
  every options value and every state, with an error whose message says that the
  operation is not supported in the browser environment, and the state (cache
  included) is returned unchanged. The error is an instance of
  \<^verbatim>\<open>RegistryUnavailableError\<close>, the one class the source has for it.
\<close>

theorem browser_writes_unsupported:
  "browser_register n options w =
     (Inl (RegistryUnavailableError
        ''Service registration is not supported in browser environment. Services should register themselves via their Node.js processes.''), w)
   \<and> browser_unregister n w =
     (Inl (RegistryUnavailableError
        ''Service unregistration is not supported in browser environment. Services should unregister themselves via their Node.js processes.''), w)
   \<and> code_of (projl (fst (browser_register n options w))) = ''REGISTRY_UNAVAILABLE''"
  by (simp add: browser_register_def browser_unregister_def)


section \<open>Initialization of the event-store adapter and the fallback decision\<close>

text \<open>No operation other than \<open>initializeFirebase\<close> touches the initialization state.\<close>


lemma io_ok_frame: "io_ok w = (b, w') \<Longrightarrow> init_frame w w'"
  by (auto simp: io_ok_def init_frame_def split: list.splits)

lemma loadRegistry_frame: "loadRegistry w = (r, w') \<Longrightarrow> init_frame w w'"
  by (auto simp: loadRegistry_def init_frame_def split: prod.splits file_state.splits if_splits
      dest!: io_ok_frame)

lemma saveRegistry_frame: "saveRegistry reg w = (r, w') \<Longrightarrow> init_frame w w'"
  by (auto simp: saveRegistry_def init_frame_def split: prod.splits if_splits dest!: io_ok_frame)

lemma ensureRegistryDir_frame: "ensureRegistryDir w = (r, w') \<Longrightarrow> init_frame w w'"
  by (auto simp: ensureRegistryDir_def init_frame_def split: prod.splits if_splits dest!: io_ok_frame)

lemma performHealthCheck_frame: "performHealthCheck url t w = (h, w') \<Longrightarrow> init_frame w w'"
  by (auto simp: performHealthCheck_def init_frame_def)

lemma delay_frame: "init_frame w (delay ms w)"
  by (simp add: delay_def init_frame_def)

lemma getUserId_frame: "getUserId w = (u, w') \<Longrightarrow> init_frame w w'"
  by (auto simp: getUserId_def getOrCreateUniqueId_def init_frame_def Let_def
      split: if_splits option.splits prod.splits dest!: io_ok_frame)

lemma init_frame_trans: "init_frame a b \<Longrightarrow> init_frame b c \<Longrightarrow> init_frame a c"
  by (simp add: init_frame_def)

lemma init_frame_refl: "init_frame a a"
  by (simp add: init_frame_def)

lemma register_frame: "register n options w = (r, w') \<Longrightarrow> init_frame w w'"
  by (auto simp: register_def Let_def split: prod.splits sum.splits
      dest!: ensureRegistryDir_frame loadRegistry_frame saveRegistry_frame
      intro: init_frame_trans)

lemma unregister_frame: "unregister n w = (r, w') \<Longrightarrow> init_frame w w'"
  by (auto simp: unregister_def Let_def split: prod.splits sum.splits if_splits
      dest!: loadRegistry_frame saveRegistry_frame intro: init_frame_trans)

lemma listServices_frame: "listServices w = (r, w') \<Longrightarrow> init_frame w w'"
  by (auto simp: listServices_def split: prod.splits sum.splits dest!: loadRegistry_frame)

lemma discover_loaded_frame:
  "discover_loaded n t ih reg w = (r, w') \<Longrightarrow> init_frame w w'"
  by (auto simp: discover_loaded_def Let_def init_frame_refl
      split: prod.splits sum.splits option.splits if_splits property.splits
      dest!: performHealthCheck_frame saveRegistry_frame intro: init_frame_trans)

lemma discover_from_frame:
  "discover_from cfg n t retries ih attempt le w = (r, w') \<Longrightarrow> init_frame w w'"
proof (induction cfg n t retries ih attempt le w rule: discover_from.induct)
  case (1 cfg n timeout retries includeHealth attempt lastError w)
  show ?case
  proof (cases "attempt \<le> retries")
    case False
    with "1.prems" show ?thesis
      by (auto simp: init_frame_refl split: option.splits)
  next
    case True
    obtain res w1 where load: "loadRegistry w = (res, w1)" by (cases "loadRegistry w")
    then have f1: "init_frame w w1" by (rule loadRegistry_frame)
    show ?thesis
    proof (cases res)
      case (Inr registry)
      with True load "1.prems" have "\<exists>x. discover_loaded n timeout includeHealth registry w1 = (x, w')"
        by (auto split: prod.splits)
      then have "init_frame w1 w'" by (auto dest: discover_loaded_frame)
      with f1 show ?thesis by (rule init_frame_trans)
    next
      case (Inl e)
      let ?w2 = "if attempt < retries then delay (retryDelay cfg) w1 else w1"
      from True load Inl "1.prems"
      have "discover_from cfg n timeout retries includeHealth (attempt + 1) (Some e) ?w2 = (r, w')"
        by simp
      with "1.IH" [OF True load [symmetric] _ ] Inl have "init_frame ?w2 w'" by simp
      moreover have "init_frame w1 ?w2" by (simp add: delay_frame init_frame_refl)
      ultimately show ?thesis using f1 by (blast intro: init_frame_trans)
    qed
  qed
qed



lemma fb_register_primary_frame: "fb_register_primary n options w = (r, w') \<Longrightarrow> init_frame w w'"
  by (auto simp: fb_register_primary_def Let_def init_frame_def
      split: prod.splits if_splits
      dest!: getUserId_frame io_ok_frame)

lemma fb_discover_primary_frame:
  "fb_discover_primary cfg n options w = (r, w') \<Longrightarrow> init_frame w w'"
  by (auto simp: fb_discover_primary_def Let_def init_frame_def
      split: prod.splits if_splits option.splits
      dest!: performHealthCheck_frame io_ok_frame)

lemma fb_unregister_primary_frame:
  "fb_unregister_primary n w = (r, w') \<Longrightarrow> init_frame w w'"
  by (auto simp: fb_unregister_primary_def Let_def init_frame_def
      split: prod.splits if_splits dest!: io_ok_frame)

lemma fb_list_loop_frame:
  "fb_list_loop es acc w = (r, w') \<Longrightarrow> init_frame w w'"
proof (induction es acc w rule: fb_list_loop.induct)
  case (1 serviceList w)
  then show ?case by (simp add: init_frame_refl)
next
  case (2 serviceName serviceInfo rest serviceList w)
  obtain ok1 w1 where a: "io_ok w = (ok1, w1)" by (cases "io_ok w")
  then have f1: "init_frame w w1" by (rule io_ok_frame)
  obtain ok2 w2 where b: "io_ok w1 = (ok2, w2)" by (cases "io_ok w1")
  then have f2: "init_frame w1 w2" by (rule io_ok_frame)
  show ?case
  proof (cases ok1)
    case False
    with a "2.prems" f1 show ?thesis by auto
  next
    case ok: True
    show ?thesis
    proof (cases "presence_online serviceName w1")
      case True
      with ok a "2.prems" have "fb_list_loop rest (serviceList @ [serviceInfo]) w1 = (r, w')"
        by simp
      with "2.IH"(1) [OF a [symmetric] _ True] ok have "init_frame w1 w'" by simp
      with f1 show ?thesis by (rule init_frame_trans)
    next
      case off: False
      show ?thesis
      proof (cases ok2)
        case False
        with ok off a b "2.prems" have "w' = w2" by auto
        with f1 f2 show ?thesis by (auto intro: init_frame_trans)
      next
        case True
        let ?w3 = "w2\<lparr>rt_services := AList.delete serviceName (rt_services w2)\<rparr>"
        from True ok off a b "2.prems" have "fb_list_loop rest serviceList ?w3 = (r, w')"
          by simp
        with "2.IH"(2) [OF a [symmetric] _ off b [symmetric]] ok True
        have "init_frame ?w3 w'" by simp
        moreover have "init_frame w2 ?w3" by (simp add: init_frame_def)
        ultimately show ?thesis using f1 f2 by (blast intro: init_frame_trans)
      qed
    qed
  qed
qed

lemma fb_listServices_primary_frame:
  "fb_listServices_primary w = (r, w') \<Longrightarrow> init_frame w w'"
  by (auto simp: fb_listServices_primary_def Let_def init_frame_refl
      split: prod.splits if_splits sum.splits
      dest!: io_ok_frame fb_list_loop_frame intro: init_frame_trans)

lemma initializeFirebase_done: "isInitialized w \<Longrightarrow> initializeFirebase w = w"
  by (simp add: initializeFirebase_def)

lemma initializeFirebase_attempt:
  "\<not> isInitialized w \<Longrightarrow> init_attempts (initializeFirebase w) = init_attempts w + 1"
  by (auto simp: initializeFirebase_def Let_def split: list.splits prod.splits
      dest!: getUserId_frame simp: init_frame_def)

lemma fb_ops_attempts:
  "init_attempts (snd (fb_register n options w)) = init_attempts (initializeFirebase w)"
  "init_attempts (snd (fb_discover cfg n dopts w)) = init_attempts (initializeFirebase w)"
  "init_attempts (snd (fb_unregister n w)) = init_attempts (initializeFirebase w)"
  "init_attempts (snd (fb_listServices w)) = init_attempts (initializeFirebase w)"
proof -
  show "init_attempts (snd (fb_register n options w)) = init_attempts (initializeFirebase w)"
    using register_frame [of n options "initializeFirebase w"]
      fb_register_primary_frame [of n options "initializeFirebase w"]
    by (cases "register n options (initializeFirebase w)";
        cases "fb_register_primary n options (initializeFirebase w)")
       (simp add: fb_register_def fallback_register_def Let_def init_frame_def)
  show "init_attempts (snd (fb_discover cfg n dopts w)) = init_attempts (initializeFirebase w)"
    using discover_from_frame fb_discover_primary_frame [of cfg n dopts "initializeFirebase w"]
    by (cases "discover cfg n dopts (initializeFirebase w)";
        cases "fb_discover_primary cfg n dopts (initializeFirebase w)")
       (auto simp: fb_discover_def fallback_discover_def discover_def Let_def init_frame_def)
  show "init_attempts (snd (fb_unregister n w)) = init_attempts (initializeFirebase w)"
    using unregister_frame [of n "initializeFirebase w"]
      fb_unregister_primary_frame [of n "initializeFirebase w"]
    by (cases "unregister n (initializeFirebase w)";
        cases "fb_unregister_primary n (initializeFirebase w)")
       (simp add: fb_unregister_def fallback_unregister_def Let_def init_frame_def)
  show "init_attempts (snd (fb_listServices w)) = init_attempts (initializeFirebase w)"
    using listServices_frame [of "initializeFirebase w"]
      fb_listServices_primary_frame [of "initializeFirebase w"]
    by (cases "listServices (initializeFirebase w)";
        cases "fb_listServices_primary (initializeFirebase w)")
       (simp add: fb_listServices_def fallback_listServices_def Let_def init_frame_def)
qed



lemma fb_ops_initialized:
  "isInitialized (snd (fb_register n options w)) = isInitialized (initializeFirebase w)"
  "isInitialized (snd (fb_discover cfg n dopts w)) = isInitialized (initializeFirebase w)"
  "isInitialized (snd (fb_unregister n w)) = isInitialized (initializeFirebase w)"
  "isInitialized (snd (fb_listServices w)) = isInitialized (initializeFirebase w)"
proof -
  show "isInitialized (snd (fb_register n options w)) = isInitialized (initializeFirebase w)"
    using register_frame [of n options "initializeFirebase w"]
      fb_register_primary_frame [of n options "initializeFirebase w"]
    by (cases "register n options (initializeFirebase w)";
        cases "fb_register_primary n options (initializeFirebase w)")
       (simp add: fb_register_def fallback_register_def Let_def init_frame_def)
  show "isInitialized (snd (fb_discover cfg n dopts w)) = isInitialized (initializeFirebase w)"
    using discover_from_frame fb_discover_primary_frame [of cfg n dopts "initializeFirebase w"]
    by (cases "discover cfg n dopts (initializeFirebase w)";
        cases "fb_discover_primary cfg n dopts (initializeFirebase w)")
       (auto simp: fb_discover_def fallback_discover_def discover_def Let_def init_frame_def)
  show "isInitialized (snd (fb_unregister n w)) = isInitialized (initializeFirebase w)"
    using unregister_frame [of n "initializeFirebase w"]
      fb_unregister_primary_frame [of n "initializeFirebase w"]
    by (cases "unregister n (initializeFirebase w)";
        cases "fb_unregister_primary n (initializeFirebase w)")
       (simp add: fb_unregister_def fallback_unregister_def Let_def init_frame_def)
  show "isInitialized (snd (fb_listServices w)) = isInitialized (initializeFirebase w)"
    using listServices_frame [of "initializeFirebase w"]
      fb_listServices_primary_frame [of "initializeFirebase w"]
    by (cases "listServices (initializeFirebase w)";
        cases "fb_listServices_primary (initializeFirebase w)")
       (simp add: fb_listServices_def fallback_listServices_def Let_def init_frame_def)
qed


text \<open>The outcome of an attempt is the one the environment holds for it.\<close>

lemma initializeFirebase_outcome:
  "\<not> isInitialized w \<Longrightarrow> isInitialized (initializeFirebase w) = attempt_succeeds w"
  by (auto simp: initializeFirebase_def attempt_succeeds_def Let_def
      split: list.splits prod.splits)

lemma getUserId_fallback_mock: "fallback_mock (snd (getUserId w)) = fallback_mock w"
  by (auto simp: getUserId_def getOrCreateUniqueId_def io_ok_def Let_def
      split: option.splits list.splits)

lemma initializeFirebase_fallback_mock:
  "fallback_mock (initializeFirebase w) = fallback_mock w"
proof (cases "isInitialized w")
  case True
  then show ?thesis by (simp add: initializeFirebase_def)
next
  case False
  show ?thesis
  proof (cases "firebase_up w")
    case Nil
    with False show ?thesis by (simp add: initializeFirebase_def)
  next
    case (Cons up rest)
    show ?thesis
      using False Cons
        getUserId_fallback_mock [of "w\<lparr>init_attempts := init_attempts w + 1, firebase_up := rest\<rparr>"]
      by (cases "getUserId (w\<lparr>init_attempts := init_attempts w + 1, firebase_up := rest\<rparr>)")
         (simp add: initializeFirebase_def Let_def)
  qed
qed

text \<open>The operations on the primary store neither read nor write the registry file:
  with another file in place they give the same result and leave that file as it is.\<close>

lemma io_ok_alt:
  "io_ok w = ((case io w of [] \<Rightarrow> True | b # bs \<Rightarrow> b), w\<lparr>io := tl (io w)\<rparr>)"
  by (cases "io w") (simp_all add: io_ok_def)

lemma getUserId_file:
  "fst (getUserId (w\<lparr>reg_file := f\<rparr>)) = fst (getUserId w)"
  "snd (getUserId (w\<lparr>reg_file := f\<rparr>)) = (snd (getUserId w))\<lparr>reg_file := f\<rparr>"
  by (simp_all add: getUserId_def getOrCreateUniqueId_def io_ok_alt Let_def split_def
      split: option.splits)

lemma presence_online_file [simp]:
  "presence_online n (w\<lparr>reg_file := f\<rparr>) = presence_online n w"
  by (simp add: presence_online_def)

lemma pid_or_own_file [simp]: "pid_or_own p (w\<lparr>reg_file := f\<rparr>) = pid_or_own p w"
  by (cases p) (simp_all add: pid_or_own_def)

lemma fb_register_primary_file:
  "fb_register_primary n options (w\<lparr>reg_file := f\<rparr>)
     = apsnd (\<lambda>v. v\<lparr>reg_file := f\<rparr>) (fb_register_primary n options w)"
  by (simp add: fb_register_primary_def fb_metadata_def getUserId_file
      io_ok_alt Let_def split_def)

lemma fb_unregister_primary_file:
  "fb_unregister_primary n (w\<lparr>reg_file := f\<rparr>)
     = apsnd (\<lambda>v. v\<lparr>reg_file := f\<rparr>) (fb_unregister_primary n w)"
  by (simp add: fb_unregister_primary_def io_ok_alt Let_def split_def)

lemma fb_discover_primary_file:
  "fb_discover_primary cfg n options (w\<lparr>reg_file := f\<rparr>)
     = apsnd (\<lambda>v. v\<lparr>reg_file := f\<rparr>) (fb_discover_primary cfg n options w)"
  by (simp add: fb_discover_primary_def performHealthCheck_def presence_online_def
      io_ok_alt Let_def split_def split: option.splits)

lemma fb_list_loop_file:
  "fb_list_loop es acc (w\<lparr>reg_file := f\<rparr>)
     = apsnd (\<lambda>v. v\<lparr>reg_file := f\<rparr>) (fb_list_loop es acc w)"
proof (induction es arbitrary: acc w)
  case Nil
  show ?case by simp
next
  case (Cons e es)
  obtain serviceName serviceInfo where e: "e = (serviceName, serviceInfo)" by (cases e)
  have a: "fb_list_loop es acc' (v\<lparr>reg_file := f, io := i\<rparr>)
      = apsnd (\<lambda>v. v\<lparr>reg_file := f\<rparr>) (fb_list_loop es acc' (v\<lparr>io := i\<rparr>))" for acc' v i
  proof -
    have eq: "v\<lparr>reg_file := f, io := i\<rparr> = v\<lparr>io := i, reg_file := f\<rparr>" by simp
    show ?thesis unfolding eq by (rule Cons.IH)
  qed
  have b: "fb_list_loop es acc' (v\<lparr>reg_file := f, io := i, rt_services := r\<rparr>)
      = apsnd (\<lambda>v. v\<lparr>reg_file := f\<rparr>) (fb_list_loop es acc' (v\<lparr>io := i, rt_services := r\<rparr>))"
    for acc' v i r
  proof -
    have eq: "v\<lparr>reg_file := f, io := i, rt_services := r\<rparr>
        = v\<lparr>io := i, rt_services := r, reg_file := f\<rparr>" by simp
    show ?thesis unfolding eq by (rule Cons.IH)
  qed
  show ?case
    unfolding e
    by (simp add: io_ok_alt presence_online_def a b)
qed

lemma fb_listServices_primary_file:
  "fb_listServices_primary (w\<lparr>reg_file := f\<rparr>)
     = apsnd (\<lambda>v. v\<lparr>reg_file := f\<rparr>) (fb_listServices_primary w)"
proof -
  have a: "fb_list_loop es acc (v\<lparr>reg_file := f, io := i\<rparr>)
      = apsnd (\<lambda>v. v\<lparr>reg_file := f\<rparr>) (fb_list_loop es acc (v\<lparr>io := i\<rparr>))" for es acc v i
  proof -
    have eq: "v\<lparr>reg_file := f, io := i\<rparr> = v\<lparr>io := i, reg_file := f\<rparr>" by simp
    show ?thesis unfolding eq by (rule fb_list_loop_file)
  qed
  show ?thesis
    by (simp add: fb_listServices_primary_def io_ok_alt Let_def a split_def
        split: sum.splits)
qed

lemma fb_ops_initialized_primary:
  assumes "isInitialized w"
  shows "fb_register n options w = fb_register_primary n options w"
    and "fb_discover cfg n dopts w = fb_discover_primary cfg n dopts w"
    and "fb_unregister n w = fb_unregister_primary n w"
    and "fb_listServices w = fb_listServices_primary w"
  using assms
  by (simp_all add: fb_register_def fb_discover_def fb_unregister_def fb_listServices_def
      initializeFirebase_done)

lemma fb_ops_file:
  assumes "isInitialized w"
  shows "fb_register n options (w\<lparr>reg_file := f\<rparr>)
      = (fst (fb_register n options w), (snd (fb_register n options w))\<lparr>reg_file := f\<rparr>)"
    and "fb_discover cfg n dopts (w\<lparr>reg_file := f\<rparr>)
      = (fst (fb_discover cfg n dopts w), (snd (fb_discover cfg n dopts w))\<lparr>reg_file := f\<rparr>)"
    and "fb_unregister n (w\<lparr>reg_file := f\<rparr>)
      = (fst (fb_unregister n w), (snd (fb_unregister n w))\<lparr>reg_file := f\<rparr>)"
    and "fb_listServices (w\<lparr>reg_file := f\<rparr>)
      = (fst (fb_listServices w), (snd (fb_listServices w))\<lparr>reg_file := f\<rparr>)"
proof -
  from assms have i: "isInitialized (w\<lparr>reg_file := f\<rparr>)" by simp
  show "fb_register n options (w\<lparr>reg_file := f\<rparr>)
      = (fst (fb_register n options w), (snd (fb_register n options w))\<lparr>reg_file := f\<rparr>)"
    unfolding fb_ops_initialized_primary(1) [OF assms] fb_ops_initialized_primary(1) [OF i]
      fb_register_primary_file
    by (cases "fb_register_primary n options w") simp
  show "fb_discover cfg n dopts (w\<lparr>reg_file := f\<rparr>)
      = (fst (fb_discover cfg n dopts w), (snd (fb_discover cfg n dopts w))\<lparr>reg_file := f\<rparr>)"
    unfolding fb_ops_initialized_primary(2) [OF assms] fb_ops_initialized_primary(2) [OF i]
      fb_discover_primary_file
    by (cases "fb_discover_primary cfg n dopts w") simp
  show "fb_unregister n (w\<lparr>reg_file := f\<rparr>)
      = (fst (fb_unregister n w), (snd (fb_unregister n w))\<lparr>reg_file := f\<rparr>)"
    unfolding fb_ops_initialized_primary(3) [OF assms] fb_ops_initialized_primary(3) [OF i]
      fb_unregister_primary_file
    by (cases "fb_unregister_primary n w") simp
  show "fb_listServices (w\<lparr>reg_file := f\<rparr>)
      = (fst (fb_listServices w), (snd (fb_listServices w))\<lparr>reg_file := f\<rparr>)"
    unfolding fb_ops_initialized_primary(4) [OF assms] fb_ops_initialized_primary(4) [OF i]
      fb_listServices_primary_file
    by (cases "fb_listServices_primary w") simp
qed

lemma fb_ops_after_attempt:
  assumes "\<not> isInitialized w"
  shows "attempt_succeeds w \<Longrightarrow>
           fb_register n options w = fb_register_primary n options (initializeFirebase w)"
    and "attempt_succeeds w \<Longrightarrow>
           fb_discover cfg n dopts w = fb_discover_primary cfg n dopts (initializeFirebase w)"
    and "attempt_succeeds w \<Longrightarrow>
           fb_unregister n w = fb_unregister_primary n (initializeFirebase w)"
    and "attempt_succeeds w \<Longrightarrow>
           fb_listServices w = fb_listServices_primary (initializeFirebase w)"
    and "\<not> attempt_succeeds w \<Longrightarrow>
           fb_register n options w = fallback_register n options (initializeFirebase w)"
    and "\<not> attempt_succeeds w \<Longrightarrow>
           fb_discover cfg n dopts w = fallback_discover cfg n dopts (initializeFirebase w)"
    and "\<not> attempt_succeeds w \<Longrightarrow>
           fb_unregister n w = fallback_unregister n (initializeFirebase w)"
    and "\<not> attempt_succeeds w \<Longrightarrow>
           fb_listServices w = fallback_listServices (initializeFirebase w)"
  using initializeFirebase_outcome [OF assms]
  by (simp_all add: fb_register_def fb_discover_def fb_unregister_def fb_listServices_def Let_def)

lemma fallback_file_backed:
  assumes "\<not> fallback_mock w"
  shows "fallback_register n options (initializeFirebase w) = register n options (initializeFirebase w)"
    and "fallback_discover cfg n dopts (initializeFirebase w) = discover cfg n dopts (initializeFirebase w)"
    and "fallback_unregister n (initializeFirebase w) = unregister n (initializeFirebase w)"
    and "fallback_listServices (initializeFirebase w) = listServices (initializeFirebase w)"
  using assms
  by (simp_all add: fallback_register_def fallback_discover_def fallback_unregister_def
      fallback_listServices_def initializeFirebase_fallback_mock)

lemma fallback_stand_in:
  assumes "fallback_mock w"
  shows "fallback_register n options (initializeFirebase w) = (Inr (), initializeFirebase w)"
    and "fallback_discover cfg n dopts (initializeFirebase w) = (Inr None, initializeFirebase w)"
    and "fallback_unregister n (initializeFirebase w) = (Inr (), initializeFirebase w)"
    and "fallback_listServices (initializeFirebase w) = (Inr [], initializeFirebase w)"
  using assms
  by (simp_all add: fallback_register_def fallback_discover_def fallback_unregister_def
      fallback_listServices_def initializeFirebase_fallback_mock)

text \<open>
  C4 (as amended). Only a successful initialization is cached. Once \<open>isInitialized\<close>
  holds, \<open>initializeFirebase\<close> does nothing, no \<open>register\<close>, \<open>discover\<close>, \<open>unregister\<close> or
  \<open>listServices\<close> call attempts initialization again, the flag stays set, and each of
  these calls is the operation on the primary store alone: it neither reads nor writes
  the registry file. While \<open>isInitialized\<close> does not hold (never initialized, or the
  last attempt failed), each of these calls makes exactly one new attempt, whose
  outcome the environment decides. If the attempt succeeds, the call is the operation
  on the primary store; if it fails, the call is handed, for this call, to the fallback
  registry the constructor built: the file-backed adapter, or, when that adapter could
  not be loaded, the stand-in whose operations resolve without doing anything.
\<close>

theorem initialization_retried_until_success:
  "(isInitialized w \<longrightarrow>
      initializeFirebase w = w
    \<and> init_attempts (snd (fb_register n options w)) = init_attempts w
    \<and> init_attempts (snd (fb_discover cfg n dopts w)) = init_attempts w
    \<and> init_attempts (snd (fb_unregister n w)) = init_attempts w
    \<and> init_attempts (snd (fb_listServices w)) = init_attempts w
    \<and> isInitialized (snd (fb_register n options w))
    \<and> isInitialized (snd (fb_discover cfg n dopts w))
    \<and> isInitialized (snd (fb_unregister n w))
    \<and> isInitialized (snd (fb_listServices w))
    \<and> fb_register n options w = fb_register_primary n options w
    \<and> fb_discover cfg n dopts w = fb_discover_primary cfg n dopts w
    \<and> fb_unregister n w = fb_unregister_primary n w
    \<and> fb_listServices w = fb_listServices_primary w
    \<and> fb_register n options (w\<lparr>reg_file := f\<rparr>)
        = (fst (fb_register n options w), (snd (fb_register n options w))\<lparr>reg_file := f\<rparr>)
    \<and> fb_discover cfg n dopts (w\<lparr>reg_file := f\<rparr>)
        = (fst (fb_discover cfg n dopts w), (snd (fb_discover cfg n dopts w))\<lparr>reg_file := f\<rparr>)
    \<and> fb_unregister n (w\<lparr>reg_file := f\<rparr>)
        = (fst (fb_unregister n w), (snd (fb_unregister n w))\<lparr>reg_file := f\<rparr>)
    \<and> fb_listServices (w\<lparr>reg_file := f\<rparr>)
        = (fst (fb_listServices w), (snd (fb_listServices w))\<lparr>reg_file := f\<rparr>))
   \<and> (\<not> isInitialized w \<longrightarrow>
      init_attempts (snd (fb_register n options w)) = init_attempts w + 1
    \<and> init_attempts (snd (fb_discover cfg n dopts w)) = init_attempts w + 1
    \<and> init_attempts (snd (fb_unregister n w)) = init_attempts w + 1
    \<and> init_attempts (snd (fb_listServices w)) = init_attempts w + 1
    \<and> isInitialized (initializeFirebase w) = attempt_succeeds w
    \<and> (attempt_succeeds w \<longrightarrow>
          fb_register n options w = fb_register_primary n options (initializeFirebase w)
        \<and> fb_discover cfg n dopts w = fb_discover_primary cfg n dopts (initializeFirebase w)
        \<and> fb_unregister n w = fb_unregister_primary n (initializeFirebase w)
        \<and> fb_listServices w = fb_listServices_primary (initializeFirebase w))
    \<and> (\<not> attempt_succeeds w \<and> \<not> fallback_mock w \<longrightarrow>
          fb_register n options w = register n options (initializeFirebase w)
        \<and> fb_discover cfg n dopts w = discover cfg n dopts (initializeFirebase w)
        \<and> fb_unregister n w = unregister n (initializeFirebase w)
        \<and> fb_listServices w = listServices (initializeFirebase w))
    \<and> (\<not> attempt_succeeds w \<and> fallback_mock w \<longrightarrow>
          fb_register n options w = (Inr (), initializeFirebase w)
        \<and> fb_discover cfg n dopts w = (Inr None, initializeFirebase w)
        \<and> fb_unregister n w = (Inr (), initializeFirebase w)
        \<and> fb_listServices w = (Inr [], initializeFirebase w)))"
proof (cases "isInitialized w")
  case True
  have old: "initializeFirebase w = w
    \<and> init_attempts (snd (fb_register n options w)) = init_attempts w
    \<and> init_attempts (snd (fb_discover cfg n dopts w)) = init_attempts w
    \<and> init_attempts (snd (fb_unregister n w)) = init_attempts w
    \<and> init_attempts (snd (fb_listServices w)) = init_attempts w
    \<and> isInitialized (snd (fb_register n options w))
    \<and> isInitialized (snd (fb_discover cfg n dopts w))
    \<and> isInitialized (snd (fb_unregister n w))
    \<and> isInitialized (snd (fb_listServices w))"
    using True by (simp add: fb_ops_attempts fb_ops_initialized initializeFirebase_done)
  have primary: "fb_register n options w = fb_register_primary n options w
    \<and> fb_discover cfg n dopts w = fb_discover_primary cfg n dopts w
    \<and> fb_unregister n w = fb_unregister_primary n w
    \<and> fb_listServices w = fb_listServices_primary w"
    by (intro conjI fb_ops_initialized_primary [OF True])
  have blind: "fb_register n options (w\<lparr>reg_file := f\<rparr>)
        = (fst (fb_register n options w), (snd (fb_register n options w))\<lparr>reg_file := f\<rparr>)
    \<and> fb_discover cfg n dopts (w\<lparr>reg_file := f\<rparr>)
        = (fst (fb_discover cfg n dopts w), (snd (fb_discover cfg n dopts w))\<lparr>reg_file := f\<rparr>)
    \<and> fb_unregister n (w\<lparr>reg_file := f\<rparr>)
        = (fst (fb_unregister n w), (snd (fb_unregister n w))\<lparr>reg_file := f\<rparr>)
    \<and> fb_listServices (w\<lparr>reg_file := f\<rparr>)
        = (fst (fb_listServices w), (snd (fb_listServices w))\<lparr>reg_file := f\<rparr>)"
    by (intro conjI fb_ops_file [OF True])
  from True old primary blind show ?thesis by blast
next
  case False
  have "isInitialized (initializeFirebase w) = attempt_succeeds w"
    using False by (rule initializeFirebase_outcome)
  moreover have "attempt_succeeds w \<longrightarrow>
          fb_register n options w = fb_register_primary n options (initializeFirebase w)
        \<and> fb_discover cfg n dopts w = fb_discover_primary cfg n dopts (initializeFirebase w)
        \<and> fb_unregister n w = fb_unregister_primary n (initializeFirebase w)
        \<and> fb_listServices w = fb_listServices_primary (initializeFirebase w)"
    using fb_ops_after_attempt(1-4) [OF False] by blast
  moreover have "\<not> attempt_succeeds w \<and> \<not> fallback_mock w \<longrightarrow>
          fb_register n options w = register n options (initializeFirebase w)
        \<and> fb_discover cfg n dopts w = discover cfg n dopts (initializeFirebase w)
        \<and> fb_unregister n w = unregister n (initializeFirebase w)
        \<and> fb_listServices w = listServices (initializeFirebase w)"
    using fb_ops_after_attempt(5-8) [OF False] fallback_file_backed [of w] by metis
  moreover have "\<not> attempt_succeeds w \<and> fallback_mock w \<longrightarrow>
          fb_register n options w = (Inr (), initializeFirebase w)
        \<and> fb_discover cfg n dopts w = (Inr None, initializeFirebase w)
        \<and> fb_unregister n w = (Inr (), initializeFirebase w)
        \<and> fb_listServices w = (Inr [], initializeFirebase w)"
    using fb_ops_after_attempt(5-8) [OF False] fallback_stand_in [of w] by metis
  moreover have "init_attempts (snd (fb_register n options w)) = init_attempts w + 1
    \<and> init_attempts (snd (fb_discover cfg n dopts w)) = init_attempts w + 1
    \<and> init_attempts (snd (fb_unregister n w)) = init_attempts w + 1
    \<and> init_attempts (snd (fb_listServices w)) = init_attempts w + 1"
    using False by (simp add: fb_ops_attempts initializeFirebase_attempt)
  ultimately show ?thesis
    using False by blast
qed

theorem initialization_retried_until_success_witness:
  "init_attempts (snd (fb_discover default_config ''svc-a'' no_options sample_world)) = 1
   \<and> init_attempts (snd (fb_unregister ''svc-a'' sample_world)) = 1
   \<and> fb_unregister ''svc-a'' sample_world = unregister ''svc-a'' (initializeFirebase sample_world)
   \<and> fb_listServices (sample_world\<lparr>fallback_mock := True\<rparr>)
       = (Inr [], initializeFirebase (sample_world\<lparr>fallback_mock := True\<rparr>))
   \<and> fb_listServices (sample_world\<lparr>firebase_up := [True]\<rparr>)
       = fb_listServices_primary (initializeFirebase (sample_world\<lparr>firebase_up := [True]\<rparr>))
   \<and> init_attempts (snd (fb_discover default_config ''svc-a'' no_options
        (sample_world\<lparr>isInitialized := True\<rparr>))) = 0
   \<and> isInitialized (snd (fb_listServices (sample_world\<lparr>isInitialized := True\<rparr>)))
   \<and> fb_discover default_config ''svc-a'' no_options
        (sample_world\<lparr>isInitialized := True, reg_file := Garbled\<rparr>)
       = (Inr None, sample_world\<lparr>isInitialized := True, reg_file := Garbled\<rparr>)"
proof -
  let ?o = "\<lparr>opt_port = 3000, opt_pid = None, opt_healthUrl = None, opt_metadata = None\<rparr>"
  let ?m = "sample_world\<lparr>fallback_mock := True\<rparr>"
  let ?u = "sample_world\<lparr>firebase_up := [True]\<rparr>"
  let ?i = "sample_world\<lparr>isInitialized := True\<rparr>"
  note t = initialization_retried_until_success
    [where n = "''svc-a''" and options = ?o and cfg = default_config and dopts = no_options
       and f = Garbled]
  have a: "\<not> isInitialized sample_world" "\<not> attempt_succeeds sample_world"
    "\<not> fallback_mock sample_world"
    by (simp_all add: sample_world_def attempt_succeeds_def)
  have b: "\<not> isInitialized ?m" "\<not> attempt_succeeds ?m" "fallback_mock ?m"
    by (simp_all add: sample_world_def attempt_succeeds_def)
  have c: "\<not> isInitialized ?u" "attempt_succeeds ?u"
    by (simp_all add: sample_world_def attempt_succeeds_def)
  have d: "isInitialized ?i"
    by simp
  have z: "init_attempts sample_world = 0" "init_attempts ?i = 0"
    by (simp_all add: sample_world_def)
  have e: "fb_discover default_config ''svc-a'' no_options ?i = (Inr None, ?i)"
    by (simp add: fb_discover_def fb_discover_primary_def initializeFirebase_def io_ok_def
        sample_world_def)
  have "init_attempts (snd (fb_discover default_config ''svc-a'' no_options sample_world))
      = init_attempts sample_world + 1"
    using t [of sample_world] a by blast
  then have c1: "init_attempts (snd (fb_discover default_config ''svc-a'' no_options sample_world)) = 1"
    by (simp add: z)
  have "init_attempts (snd (fb_unregister ''svc-a'' sample_world)) = init_attempts sample_world + 1"
    using t [of sample_world] a by blast
  then have c2: "init_attempts (snd (fb_unregister ''svc-a'' sample_world)) = 1"
    by (simp add: z)
  have c3: "fb_unregister ''svc-a'' sample_world
      = unregister ''svc-a'' (initializeFirebase sample_world)"
    using t [of sample_world] a by blast
  have c4: "fb_listServices ?m = (Inr [], initializeFirebase ?m)"
    using t [of ?m] b by blast
  have c5: "fb_listServices ?u = fb_listServices_primary (initializeFirebase ?u)"
    using t [of ?u] c by blast
  have "init_attempts (snd (fb_discover default_config ''svc-a'' no_options ?i)) = init_attempts ?i"
    using t [of ?i] d by blast
  then have c6: "init_attempts (snd (fb_discover default_config ''svc-a'' no_options ?i)) = 0"
    by (simp only: z)
  have c7: "isInitialized (snd (fb_listServices ?i))"
    using t [of ?i] d by blast
  have "fb_discover default_config ''svc-a'' no_options (?i\<lparr>reg_file := Garbled\<rparr>)
      = (fst (fb_discover default_config ''svc-a'' no_options ?i),
         (snd (fb_discover default_config ''svc-a'' no_options ?i))\<lparr>reg_file := Garbled\<rparr>)"
    using t [of ?i] d by blast
  then have c8: "fb_discover default_config ''svc-a'' no_options (?i\<lparr>reg_file := Garbled\<rparr>)
      = (Inr None, ?i\<lparr>reg_file := Garbled\<rparr>)"
    by (simp only: e fst_conv snd_conv)
  show ?thesis
    by (intro conjI c1 c2 c3 c4 c5 c6 c7 c8)
qed

text \<open>
  The claim C4 as stated fails. The first \<open>discover\<close> finds the database out of reach
  and falls back; the second \<open>discover\<close> on the same instance attempts the
  initialization again, and, the database now being reachable, runs on the primary
  store.
\<close>

theorem fallback_decision_not_sticky:
  "fst (fb_discover default_config ''svc-a'' no_options
          (sample_world\<lparr>firebase_up := [False, True]\<rparr>)) = Inr None
   \<and> \<not> isInitialized (snd (fb_discover default_config ''svc-a'' no_options
          (sample_world\<lparr>firebase_up := [False, True]\<rparr>)))
   \<and> init_attempts (snd (fb_discover default_config ''svc-a'' no_options
          (sample_world\<lparr>firebase_up := [False, True]\<rparr>))) = 1
   \<and> init_attempts (snd (fb_discover default_config ''svc-a'' no_options
          (snd (fb_discover default_config ''svc-a'' no_options
             (sample_world\<lparr>firebase_up := [False, True]\<rparr>))))) = 2
   \<and> isInitialized (snd (fb_discover default_config ''svc-a'' no_options
          (snd (fb_discover default_config ''svc-a'' no_options
             (sample_world\<lparr>firebase_up := [False, True]\<rparr>)))))"
proof -
  let ?w = "sample_world\<lparr>firebase_up := [False, True]\<rparr>"
  have first: "fb_discover default_config ''svc-a'' no_options ?w =
      (Inr None, ?w\<lparr>init_attempts := 1, firebase_up := [True]\<rparr>)"
    by (simp add: fb_discover_def fallback_discover_def discover_def discover_loaded_def
        get_prop_def inherited_names_def initializeFirebase_def
        loadRegistry_def io_ok_def no_options_def default_config_def sample_world_def)
  show ?thesis
    unfolding first
    by (simp add: fb_ops_attempts fb_ops_initialized initializeFirebase_def getUserId_def
        truthy_str_def sample_world_def)
qed

section \<open>Discovery of names that are not registered\<close>

text \<open>
  For a name that no member of \<^verbatim>\<open>Object.prototype\<close> carries, \<open>discover\<close> of the
  file-backed and of the HTTP-backed adapter returns null when the store does not hold
  the name, and retries are spent on failed store accesses only: when the first \<open>k\<close>
  accesses fail and the next one succeeds (with \<open>k\<close> within the configured retries),
  exactly \<open>k + 1\<close> accesses are made, with \<open>k\<close> waits in between. The event-store
  adapter, once initialized, returns null after its one read, for every name.
\<close>


lemma loadRegistry_fails:
  "io w = False # bs \<Longrightarrow> loadRegistry w = (Inl (Failure ''EACCES: read''), w\<lparr>io := bs\<rparr>)"
  by (simp add: loadRegistry_def io_ok_def)

lemma loadRegistry_absent:
  assumes "io w = True # bs" and "reg_file w \<noteq> Garbled" and "stored n w = None"
  shows "\<exists>registry. loadRegistry w = (Inr registry, w\<lparr>io := bs\<rparr>)
           \<and> map_of (services registry) n = None"
  using assms by (cases "reg_file w") (simp_all add: loadRegistry_def io_ok_def stored_def)

lemma discover_from_absent:
  assumes "io w = replicate k False @ True # rest"
    and "attempt + int k \<le> retries"
    and "reg_file w \<noteq> Garbled"
    and "stored n w = None"
    and "n \<notin> set inherited_names"
  shows "fst (discover_from cfg n t retries ih attempt le w) = Inr None
     \<and> io (snd (discover_from cfg n t retries ih attempt le w)) = rest
     \<and> clock (snd (discover_from cfg n t retries ih attempt le w))
         = clock w + int k * retryDelay cfg
     \<and> net_log (snd (discover_from cfg n t retries ih attempt le w)) = net_log w
     \<and> reg_file (snd (discover_from cfg n t retries ih attempt le w)) = reg_file w"
  using assms
proof (induction k arbitrary: attempt le w)
  case 0
  then have io: "io w = True # rest" by simp
  from loadRegistry_absent [OF io "0.prems"(3,4)] obtain registry where
    "loadRegistry w = (Inr registry, w\<lparr>io := rest\<rparr>)" "map_of (services registry) n = None"
    by blast
  moreover have "attempt \<le> retries" using "0.prems"(2) by simp
  ultimately show ?case using "0.prems"(5) by (simp add: discover_loaded_def get_prop_def)
next
  case (Suc k)
  let ?w1 = "w\<lparr>io := replicate k False @ True # rest\<rparr>"
  let ?w2 = "delay (retryDelay cfg) ?w1"
  have load: "loadRegistry w = (Inl (Failure ''EACCES: read''), ?w1)"
    using Suc.prems(1) by (simp add: loadRegistry_fails)
  have lt: "attempt < retries" "attempt \<le> retries" using Suc.prems(2) by simp_all
  have unf: "discover_from cfg n t retries ih attempt le w =
      discover_from cfg n t retries ih (attempt + 1) (Some (Failure ''EACCES: read'')) ?w2"
    using load lt by simp
  have ih: "fst (discover_from cfg n t retries ih (attempt + 1) (Some (Failure ''EACCES: read'')) ?w2) = Inr None
     \<and> io (snd (discover_from cfg n t retries ih (attempt + 1) (Some (Failure ''EACCES: read'')) ?w2)) = rest
     \<and> clock (snd (discover_from cfg n t retries ih (attempt + 1) (Some (Failure ''EACCES: read'')) ?w2))
         = clock ?w2 + int k * retryDelay cfg
     \<and> net_log (snd (discover_from cfg n t retries ih (attempt + 1) (Some (Failure ''EACCES: read'')) ?w2)) = net_log ?w2
     \<and> reg_file (snd (discover_from cfg n t retries ih (attempt + 1) (Some (Failure ''EACCES: read'')) ?w2)) = reg_file ?w2"
    using Suc.prems by (intro Suc.IH) (simp_all add: delay_def stored_def)
  show ?case
    unfolding unf using ih by (simp add: delay_def algebra_simps)
qed



lemma fetchRegistry_fails:
  assumes "io w = False # bs" and "map_of (cache w) (registryApiUrl cfg) = None"
  shows "\<exists>e. fetchRegistry cfg w =
     (Inl e, w\<lparr>io := bs, net_log := net_log w @ [registryApiUrl cfg]\<rparr>)"
  using assms
  by (simp add: fetchRegistry_def fetch_snapshot_def read_services_def io_ok_def Let_def)

lemma fetchRegistry_fetches:
  assumes "io w = True # bs" and "map_of (cache w) (registryApiUrl cfg) = None"
    and "map_of (http w) (registryApiUrl cfg) = Some (Response True (Body registry))"
  shows "fetchRegistry cfg w =
     (Inr registry,
      w\<lparr>io := bs, net_log := net_log w @ [registryApiUrl cfg],
        cache := AList.update (registryApiUrl cfg) (Shaped registry, clock w) (cache w)\<rparr>)"
  using assms
  by (simp add: fetchRegistry_def fetch_snapshot_def read_services_def io_ok_def Let_def)

lemma browser_discover_from_absent:
  assumes "io w = replicate k False @ True # rest"
    and "attempt + int k \<le> retries"
    and "map_of (cache w) (registryApiUrl cfg) = None"
    and "map_of (http w) (registryApiUrl cfg) = Some (Response True (Body registry))"
    and "map_of (services registry) n = None"
    and "n \<notin> set inherited_names"
  shows "fst (browser_discover_from cfg n t retries ih attempt le w) = Inr None
     \<and> io (snd (browser_discover_from cfg n t retries ih attempt le w)) = rest
     \<and> clock (snd (browser_discover_from cfg n t retries ih attempt le w))
         = clock w + int k * retryDelay cfg
     \<and> net_log (snd (browser_discover_from cfg n t retries ih attempt le w))
         = net_log w @ replicate (Suc k) (registryApiUrl cfg)"
  using assms
proof (induction k arbitrary: attempt le w)
  case 0
  then have io: "io w = True # rest" by simp
  have "attempt \<le> retries" using "0.prems"(2) by simp
  with fetchRegistry_fetches [OF io "0.prems"(3,4)] "0.prems"(5,6) show ?case
    by (simp add: browser_discover_loaded_def get_prop_def)
next
  case (Suc k)
  let ?w1 = "w\<lparr>io := replicate k False @ True # rest,
                net_log := net_log w @ [registryApiUrl cfg]\<rparr>"
  let ?w2 = "delay (retryDelay cfg) ?w1"
  from fetchRegistry_fails [of w "replicate k False @ True # rest" cfg] Suc.prems(1,3)
  obtain e where load: "fetchRegistry cfg w = (Inl e, ?w1)" by auto
  have lt: "attempt < retries" "attempt \<le> retries" using Suc.prems(2) by simp_all
  have unf: "browser_discover_from cfg n t retries ih attempt le w =
      browser_discover_from cfg n t retries ih (attempt + 1) (Some e) ?w2"
    using load lt by simp
  have ih: "fst (browser_discover_from cfg n t retries ih (attempt + 1) (Some e) ?w2) = Inr None
     \<and> io (snd (browser_discover_from cfg n t retries ih (attempt + 1) (Some e) ?w2)) = rest
     \<and> clock (snd (browser_discover_from cfg n t retries ih (attempt + 1) (Some e) ?w2))
         = clock ?w2 + int k * retryDelay cfg
     \<and> net_log (snd (browser_discover_from cfg n t retries ih (attempt + 1) (Some e) ?w2))
         = net_log ?w2 @ replicate (Suc k) (registryApiUrl cfg)"
    using Suc.prems by (intro Suc.IH) (simp_all add: delay_def)
  show ?case
    unfolding unf using ih by (simp add: delay_def algebra_simps replicate_append_same)
qed

lemma fb_discover_primary_absent:
  assumes "isInitialized w" and "io w = True # rest" and "map_of (rt_services w) n = None"
  shows "fb_discover cfg n options w = (Inr None, w\<lparr>io := rest\<rparr>)"
  using assms
  by (simp add: fb_discover_def fb_discover_primary_def initializeFirebase_def io_ok_def)


lemma discover_absent:
  assumes "io w = replicate k False @ True # rest"
    and "int k \<le> (case opt_retries options of None \<Rightarrow> retryAttempts cfg | Some r \<Rightarrow> r)"
    and "reg_file w \<noteq> Garbled" and "stored n w = None" and "n \<notin> set inherited_names"
  shows "fst (discover cfg n options w) = Inr None"
    and "io (snd (discover cfg n options w)) = rest"
    and "clock (snd (discover cfg n options w)) = clock w + int k * retryDelay cfg"
    and "net_log (snd (discover cfg n options w)) = net_log w"
proof -
  from assms(2)
  have "0 + int k \<le> (case opt_retries options of None \<Rightarrow> retryAttempts cfg | Some r \<Rightarrow> r)"
    by simp
  from discover_from_absent [OF assms(1) this assms(3,4,5)]
  show "fst (discover cfg n options w) = Inr None"
    "io (snd (discover cfg n options w)) = rest"
    "clock (snd (discover cfg n options w)) = clock w + int k * retryDelay cfg"
    "net_log (snd (discover cfg n options w)) = net_log w"
    by (simp_all add: discover_def)
qed

lemma browser_discover_absent:
  assumes "io w = replicate k False @ True # rest"
    and "int k \<le> (case opt_retries options of None \<Rightarrow> retryAttempts cfg | Some r \<Rightarrow> r)"
    and "map_of (cache w) (registryApiUrl cfg) = None"
    and "map_of (http w) (registryApiUrl cfg) = Some (Response True (Body registry))"
    and "map_of (services registry) n = None" and "n \<notin> set inherited_names"
  shows "fst (browser_discover cfg n options w) = Inr None"
    and "io (snd (browser_discover cfg n options w)) = rest"
    and "clock (snd (browser_discover cfg n options w)) = clock w + int k * retryDelay cfg"
    and "net_log (snd (browser_discover cfg n options w))
            = net_log w @ replicate (Suc k) (registryApiUrl cfg)"
proof -
  from assms(2)
  have "0 + int k \<le> (case opt_retries options of None \<Rightarrow> retryAttempts cfg | Some r \<Rightarrow> r)"
    by simp
  from browser_discover_from_absent [OF assms(1) this assms(3,4,5,6)]
  show "fst (browser_discover cfg n options w) = Inr None"
    "io (snd (browser_discover cfg n options w)) = rest"
    "clock (snd (browser_discover cfg n options w)) = clock w + int k * retryDelay cfg"
    "net_log (snd (browser_discover cfg n options w))
            = net_log w @ replicate (Suc k) (registryApiUrl cfg)"
    by (simp_all add: browser_discover_def)
qed

text \<open>For a name that \<^verbatim>\<open>Object.prototype\<close> carries and the store does not hold, the
  first snapshot that loads yields the inherited member.\<close>

lemma discover_inherited:
  assumes "io w = []" and "reg_file w \<noteq> Garbled" and "stored n w = None"
    and "n \<in> set inherited_names"
    and "0 \<le> (case opt_retries options of None \<Rightarrow> retryAttempts cfg | Some r \<Rightarrow> r)"
  shows "discover cfg n options w = (Inr (Some (Member n)), w)"
  using assms
  by (cases "reg_file w")
     (simp_all add: discover_def discover_loaded_def loadRegistry_def io_ok_def stored_def
        get_prop_def)

text \<open>
  C5. The claim fails for the names that every plain object inherits. With nothing
  registered, \<open>discover\<close> of the name \<open>constructor\<close> does not return null: the file-backed
  adapter (no registry file yet) and the HTTP-backed adapter (the endpoint serves a
  snapshot that holds only \<open>plain\<close>) both hand back the member of
  \<^verbatim>\<open>Object.prototype\<close> of that name; neither store holds it, and neither call
  raises or waits. The event-store adapter, reading the same name from its database,
  returns null.
\<close>

theorem discover_inherited_name_not_null:
  "stored ''constructor'' sample_world = None
   \<and> discover default_config ''constructor'' no_options sample_world
       = (Inr (Some (Member ''constructor'')), sample_world)
   \<and> map_of (http browser_world) (registryApiUrl default_config)
       = Some (Response True
           (Body \<lparr>services = [(''plain'', sample_record ''plain'' None None)], lastUpdated = 0\<rparr>))
   \<and> fst (browser_discover default_config ''constructor'' no_options browser_world)
       = Inr (Some (Member ''constructor''))
   \<and> clock (snd (browser_discover default_config ''constructor'' no_options browser_world))
       = clock browser_world
   \<and> fst (fb_discover default_config ''constructor'' no_options firebase_world) = Inr None"
  by (simp add: discover_def discover_loaded_def browser_discover_def
      browser_discover_loaded_def fetchRegistry_def fetch_snapshot_def read_services_def
      fb_discover_def fb_discover_primary_def initializeFirebase_def
      loadRegistry_def io_ok_def stored_def get_prop_def inherited_names_def
      no_options_def default_config_def sample_world_def browser_world_def
      firebase_world_def CACHE_TTL_def Let_def)

section \<open>Health checks of services without a health path\<close>














section \<open>Registration followed by discovery\<close>







text \<open>What serialization does to metadata, key by key.\<close>

lemma to_json_meta_Nil [simp]: "to_json_meta [] = []"
  by (simp add: to_json_meta_def map_filter_simps)

lemma to_json_meta_Cons [simp]:
  "to_json_meta ((k, v) # m) =
     (case to_json v of None \<Rightarrow> to_json_meta m | Some j \<Rightarrow> (k, j) # to_json_meta m)"
  by (simp add: to_json_meta_def map_filter_simps split: option.splits)








end
